theory Spec2Isabelle
  imports Complex_Main
begin

section \<open>The energy-consumption history of a Daikin appliance\<close>

text \<open>
  A shallow embedding of the energy-consumption part of \<^verbatim>\<open>pydaikin/daikin_base.py\<close>
  (class \<^verbatim>\<open>Appliance\<close>): the parsing of the raw fields, the recorder
  \<^verbatim>\<open>_register_energy_consumption_history\<close>, the integrator
  \<^verbatim>\<open>delta_energy_consumption\<close> and the three derived power properties.

  Conventions of the model.
  \<^item> An instant (\<^verbatim>\<open>datetime\<close>) is an integer number of microseconds, and so is a
    duration (\<^verbatim>\<open>timedelta\<close>); both have microsecond resolution in Python.
  \<^item> Every call of \<^verbatim>\<open>datetime.utcnow()\<close> is an input of the model: a function
    that reads the clock takes the readings as arguments, one per call site and per
    loop iteration, so nothing is assumed about the clock unless a theorem says so.
  \<^item> The results of Python's true division \<^verbatim>\<open>/\<close> are floats; they are modelled by
    the exact rational number, so rounding and overflow of floats are outside the model.
  \<^item> A raised exception is a value of type \<open>error\<close>; a function that can raise
    returns \<open>error + 'a\<close>, and one that mutates the appliance before it raises
    returns the appliance as well.
\<close>

subsection \<open>Data\<close>

datatype error = AttributeError | TypeError | ValueError | IndexError

text \<open>A history entry is the Python tuple \<^verbatim>\<open>(datetime, today, yesterday)\<close>.\<close>

type_synonym snapshot = "int \<times> rat \<times> rat"

text \<open>
  \<^verbatim>\<open>self.values\<close> is a dict of strings; \<^verbatim>\<open>self._energy_consumption_history\<close> is a
  \<^verbatim>\<open>defaultdict(list)\<close> keyed by the mode string.
\<close>

record appliance =
  raw_values :: "string \<rightharpoonup> string"
  energy_consumption_history :: "string \<rightharpoonup> snapshot list"

definition ATTR_TOTAL :: string where
  "ATTR_TOTAL = ''total''"

definition ATTR_COOL :: string where
  "ATTR_COOL = ''cool''"

definition ATTR_HEAT :: string where
  "ATTR_HEAT = ''heat''"

definition minutes :: "int \<Rightarrow> int" where
  "minutes n = n * 60000000"

definition hours :: "int \<Rightarrow> int" where
  "hours n = n * 3600000000"

definition POWER_CONSUMPTION_MAX_HISTORY :: int where
  "POWER_CONSUMPTION_MAX_HISTORY = hours 3"

text \<open>
  Reading \<^verbatim>\<open>d[k]\<close> on a \<^verbatim>\<open>defaultdict(list)\<close>: a missing key is inserted with
  an empty list, and the read returns that list.
\<close>

definition dd_get :: "(string \<rightharpoonup> snapshot list) \<Rightarrow> string \<Rightarrow> snapshot list \<times> (string \<rightharpoonup> snapshot list)" where
  "dd_get d k = (case d k of None \<Rightarrow> ([], d(k \<mapsto> [])) | Some xs \<Rightarrow> (xs, d))"

subsection \<open>Strings to integers\<close>

text \<open>
  \<^verbatim>\<open>str.split('/')\<close>: the pieces between the separators; never an empty list.
\<close>

fun split_on :: "char \<Rightarrow> string \<Rightarrow> string list" where
  "split_on sep [] = [[]]"
| "split_on sep (c # cs) =
     (if c = sep then [] # split_on sep cs
      else (case split_on sep cs of [] \<Rightarrow> [[c]] | w # ws \<Rightarrow> (c # w) # ws))"

text \<open>
  \<^verbatim>\<open>int(s)\<close> on an ASCII string, in base ten: the white space that C's \<^verbatim>\<open>isspace\<close>
  knows (tab, line feed, vertical tab, form feed, carriage return and the space, codes 9
  to 13 and 32) is skipped at both ends, then comes an optional sign, then decimal
  digits, where single underscores may stand between digits. Anything else raises
  \<^verbatim>\<open>ValueError\<close>, which is \<open>None\<close> here. The separators of codes 28 to 31 are not
  skipped in an ASCII string. For a string with a character outside ASCII Python
  consults the Unicode tables for further spaces and digits; that is not modelled:
  \<open>py_int\<close> is \<open>None\<close> there, every string that \<open>py_int\<close> parses is ASCII, and the
  theorems below draw conclusions only from strings that it parses or from explicit
  ASCII strings. The limit that later versions of Python put on the number of digits is
  not modelled either.
\<close>

definition is_space :: "char \<Rightarrow> bool" where
  "is_space c = (let n = (of_char c :: nat) in (9 \<le> n \<and> n \<le> 13) \<or> n = 32)"

definition is_digit :: "char \<Rightarrow> bool" where
  "is_digit c = (let n = (of_char c :: nat) in 48 \<le> n \<and> n \<le> 57)"

definition digit_val :: "char \<Rightarrow> nat" where
  "digit_val c = of_char c - 48"

definition strip :: "string \<Rightarrow> string" where
  "strip s = rev (dropWhile is_space (rev (dropWhile is_space s)))"

fun int_digits :: "nat \<Rightarrow> string \<Rightarrow> nat option" where
  "int_digits acc [] = Some acc"
| "int_digits acc (c # cs) =
     (if is_digit c then int_digits (10 * acc + digit_val c) cs
      else if c = CHR ''_'' then
        (case cs of
           [] \<Rightarrow> None
         | d # ds \<Rightarrow> if is_digit d then int_digits (10 * acc + digit_val d) ds else None)
      else None)"

definition unsigned_int :: "string \<Rightarrow> nat option" where
  "unsigned_int s =
     (case s of
        [] \<Rightarrow> None
      | d # ds \<Rightarrow> if is_digit d then int_digits (digit_val d) ds else None)"

definition py_int :: "string \<Rightarrow> int option" where
  "py_int s =
     (case strip s of
        [] \<Rightarrow> None
      | c # cs \<Rightarrow>
          if c = CHR ''-'' then map_option (\<lambda>n. - int n) (unsigned_int cs)
          else if c = CHR ''+'' then map_option int (unsigned_int cs)
          else map_option int (unsigned_int (c # cs)))"

text \<open>
  \<^verbatim>\<open>[int(x) for x in xs]\<close>: the first string that does not parse raises, so the
  result is \<open>None\<close> as soon as one element fails.
\<close>

fun ints_of :: "string list \<Rightarrow> int list option" where
  "ints_of [] = Some []"
| "ints_of (x # xs) =
     (case py_int x of
        None \<Rightarrow> None
      | Some n \<Rightarrow> (case ints_of xs of None \<Rightarrow> None | Some ns \<Rightarrow> Some (n # ns)))"

subsection \<open>The counter extractor\<close>

text \<open>
  \<^verbatim>\<open>_energy_consumption\<close>: \<^verbatim>\<open>self.values.get(dimension)\<close> is \<^verbatim>\<open>None\<close> for a
  missing key, and \<^verbatim>\<open>None.split\<close> raises \<^verbatim>\<open>AttributeError\<close>, which the
  \<^verbatim>\<open>except ValueError\<close> does not catch. A \<^verbatim>\<open>ValueError\<close> of \<^verbatim>\<open>int\<close> is caught and
  the function returns \<^verbatim>\<open>None\<close> (here \<open>Inr None\<close>).
\<close>

definition energy_consumption :: "appliance \<Rightarrow> string \<Rightarrow> error + int list option" where
  "energy_consumption self dimension =
     (case raw_values self dimension of
        None \<Rightarrow> Inl AttributeError
      | Some s \<Rightarrow> Inr (ints_of (split_on CHR ''/'' s)))"

text \<open>\<^verbatim>\<open>xs[-k]\<close> for \<open>k \<ge> 1\<close>: the \<open>k\<close>-th element from the end, or \<^verbatim>\<open>IndexError\<close>.\<close>

definition from_end :: "'a list \<Rightarrow> nat \<Rightarrow> error + 'a" where
  "from_end xs k = (if 1 \<le> k \<and> k \<le> length xs then Inr (xs ! (length xs - k)) else Inl IndexError)"

text \<open>
  Subscripting \<^verbatim>\<open>None\<close> and \<^verbatim>\<open>sum(None)\<close> raise \<^verbatim>\<open>TypeError\<close>; an unknown mode
  raises \<^verbatim>\<open>ValueError\<close>.
\<close>

definition last_div :: "(error + int list option) \<Rightarrow> nat \<Rightarrow> error + rat" where
  "last_div r k =
     (case r of
        Inl e \<Rightarrow> Inl e
      | Inr None \<Rightarrow> Inl TypeError
      | Inr (Some xs) \<Rightarrow>
          (case from_end xs k of Inl e \<Rightarrow> Inl e | Inr x \<Rightarrow> Inr (of_int x / 1000)))"

definition sum_div :: "(error + int list option) \<Rightarrow> error + rat" where
  "sum_div r =
     (case r of
        Inl e \<Rightarrow> Inl e
      | Inr None \<Rightarrow> Inl TypeError
      | Inr (Some xs) \<Rightarrow> Inr (of_int (sum_list xs) / 10))"

definition today_energy_consumption :: "appliance \<Rightarrow> string \<Rightarrow> error + rat" where
  "today_energy_consumption self mode =
     (if mode = ATTR_TOTAL then last_div (energy_consumption self ''datas'') 1
      else if mode = ATTR_COOL then sum_div (energy_consumption self ''curr_day_cool'')
      else if mode = ATTR_HEAT then sum_div (energy_consumption self ''curr_day_heat'')
      else Inl ValueError)"

definition yesterday_energy_consumption :: "appliance \<Rightarrow> string \<Rightarrow> error + rat" where
  "yesterday_energy_consumption self mode =
     (if mode = ATTR_TOTAL then last_div (energy_consumption self ''datas'') 2
      else if mode = ATTR_COOL then sum_div (energy_consumption self ''prev_1day_cool'')
      else if mode = ATTR_HEAT then sum_div (energy_consumption self ''prev_1day_heat'')
      else Inl ValueError)"

text \<open>
  \<^verbatim>\<open>support_energy_consumption\<close>: \<^verbatim>\<open>x or '0'\<close> replaces a missing and an empty
  field by \<^verbatim>\<open>'0'\<close>; a \<^verbatim>\<open>ValueError\<close> of \<^verbatim>\<open>int\<close> is not caught here.
\<close>

definition or_zero :: "string option \<Rightarrow> string" where
  "or_zero v = (case v of None \<Rightarrow> ''0'' | Some s \<Rightarrow> if s = [] then ''0'' else s)"

definition support_energy_consumption :: "appliance \<Rightarrow> error + bool" where
  "support_energy_consumption self =
     (case ints_of (split_on CHR ''/''
             (or_zero (raw_values self ''previous_year'') @ ''/'' @
              or_zero (raw_values self ''this_year''))) of
        None \<Rightarrow> Inl ValueError
      | Some ns \<Rightarrow> Inr (sum_list ns > 0))"

subsection \<open>The recorder\<close>

text \<open>
  The pruning index of lines 193 to 196: the generator yields the indices whose entry is
  older than the clock, read anew for each entry, minus the retention horizon;
  \<^verbatim>\<open>min(..., default=len(history))\<close> takes the least of them.
\<close>

definition stale_indices :: "(nat \<Rightarrow> int) \<Rightarrow> snapshot list \<Rightarrow> nat list" where
  "stale_indices now hist =
     map fst (filter (\<lambda>(i, (dt, _, _)). dt < now i - POWER_CONSUMPTION_MAX_HISTORY)
                (enumerate 0 hist))"

fun min_default :: "nat list \<Rightarrow> nat \<Rightarrow> nat" where
  "min_default [] d = d"
| "min_default (x # xs) d = fold min xs x"

definition prune :: "(nat \<Rightarrow> int) \<Rightarrow> snapshot list \<Rightarrow> snapshot list" where
  "prune now hist = take (min_default (stale_indices now hist) (length hist) + 1) hist"

text \<open>
  The clock readings of one call of the recorder: \<open>new_state_now mode\<close> is the reading
  that stamps the new state of \<open>mode\<close> (line 175), \<open>prune_now mode i\<close> the reading
  compared with entry \<open>i\<close> of the history of \<open>mode\<close> (line 195).
\<close>

record clock_reads =
  new_state_now :: "string \<Rightarrow> int"
  prune_now :: "string \<Rightarrow> nat \<Rightarrow> int"

text \<open>
  The body of the loop over the modes. \<open>Inl e\<close>: an exception left the body, which
  happens only while the new state is built, before the history is touched.
\<close>

definition register_mode :: "clock_reads \<Rightarrow> string \<Rightarrow> appliance \<Rightarrow> error + appliance" where
  "register_mode clk mode self =
     (case today_energy_consumption self mode of
        Inl e \<Rightarrow> Inl e
      | Inr today \<Rightarrow>
     (case yesterday_energy_consumption self mode of
        Inl e \<Rightarrow> Inl e
      | Inr yesterday \<Rightarrow>
          let new_state = (new_state_now clk mode, today, yesterday);
              (hist, d) = dd_get (energy_consumption_history self) mode;
              old_state = (case hist of
                             [] \<Rightarrow> (None, None, None)
                           | (dt, t, y) # _ \<Rightarrow> (Some dt, Some t, Some y))
          in if (fst (snd old_state) \<noteq> None \<and> Some today = fst (snd old_state)) \<and>
                (snd (snd old_state) \<noteq> None \<and> Some yesterday = snd (snd old_state))
             then Inr (self\<lparr>energy_consumption_history := d\<rparr>)
             else Inr (self\<lparr>energy_consumption_history :=
                          d(mode \<mapsto> prune (prune_now clk mode) (new_state # hist))\<rparr>)))"

text \<open>
  The loop: an exception ends it, and the appliance keeps what the earlier modes wrote.
\<close>

fun register_modes :: "clock_reads \<Rightarrow> string list \<Rightarrow> appliance \<Rightarrow> error option \<times> appliance" where
  "register_modes clk [] self = (None, self)"
| "register_modes clk (mode # modes) self =
     (case register_mode clk mode self of
        Inl e \<Rightarrow> (Some e, self)
      | Inr self' \<Rightarrow> register_modes clk modes self')"

definition register_energy_consumption_history :: "clock_reads \<Rightarrow> appliance \<Rightarrow> error option \<times> appliance" where
  "register_energy_consumption_history clk self =
     (case support_energy_consumption self of
        Inl e \<Rightarrow> (Some e, self)
      | Inr supported \<Rightarrow>
          if \<not> supported then (None, self)
          else register_modes clk [ATTR_TOTAL, ATTR_COOL, ATTR_HEAT] self)"

subsection \<open>The integrator\<close>

text \<open>
  The loop of \<^verbatim>\<open>delta_energy_consumption\<close> over \<^verbatim>\<open>zip(history, history[1:])\<close>.
  \<open>now i\<close> is the clock reading of iteration \<open>i\<close>; the second component of the result
  is what the call wrote to the logger at level error.
\<close>

fun delta_loop :: "(nat \<Rightarrow> int) \<Rightarrow> int \<Rightarrow> bool \<Rightarrow> nat \<Rightarrow> rat \<Rightarrow> (snapshot \<times> snapshot) list \<Rightarrow> rat \<times> string list" where
  "delta_loop now dt early_break i energy [] = (energy, [])"
| "delta_loop now dt early_break i energy (((dt2, st2, sy2), (dt1, st1, sy1)) # ps) =
     (if dt2 \<le> now i - dt then (energy, [])
      else if st2 > st1 then
        (let energy = energy + (st2 - st1)
         in if early_break then (energy, [])
            else delta_loop now dt early_break (Suc i) energy ps)
      else if sy2 \<ge> st1 then
        (let energy = energy + (sy2 - st1);
             energy = energy + st2
         in if early_break then (energy, [])
            else delta_loop now dt early_break (Suc i) energy ps)
      else (0, [''Impossible energy consumption measure'']))"

definition delta_energy_consumption :: "(nat \<Rightarrow> int) \<Rightarrow> int \<Rightarrow> string \<Rightarrow> bool \<Rightarrow> appliance \<Rightarrow> rat \<times> string list \<times> appliance" where
  "delta_energy_consumption now dt mode early_break self =
     (let (history, d) = dd_get (energy_consumption_history self) mode;
          (energy, logged) = delta_loop now dt early_break 0 0 (zip history (tl history))
      in (energy, logged, self\<lparr>energy_consumption_history := d\<rparr>))"

subsection \<open>The derived power properties\<close>

text \<open>
  Each property first tests \<^verbatim>\<open>len(self._energy_consumption_history)\<close>, the number of
  keys of the dict, and returns \<^verbatim>\<open>None\<close> when it is zero.
\<close>

definition current_total_power_consumption :: "(nat \<Rightarrow> int) \<Rightarrow> appliance \<Rightarrow> rat option \<times> string list \<times> appliance" where
  "current_total_power_consumption now self =
     (if dom (energy_consumption_history self) = {} then (None, [], self)
      else
        let w = minutes 30;
            (energy, logged, self') = delta_energy_consumption now w ''total'' False self
        in (Some (energy * (of_int (hours 1) / of_int w)), logged, self'))"

definition last_hour_cool_power_consumption :: "(nat \<Rightarrow> int) \<Rightarrow> appliance \<Rightarrow> rat option \<times> string list \<times> appliance" where
  "last_hour_cool_power_consumption now self =
     (if dom (energy_consumption_history self) = {} then (None, [], self)
      else
        let w = minutes 65;
            (energy, logged, self') = delta_energy_consumption now w ATTR_COOL True self
        in (Some energy, logged, self'))"

definition last_hour_heat_power_consumption :: "(nat \<Rightarrow> int) \<Rightarrow> appliance \<Rightarrow> rat option \<times> string list \<times> appliance" where
  "last_hour_heat_power_consumption now self =
     (if dom (energy_consumption_history self) = {} then (None, [], self)
      else
        let w = minutes 65;
            (energy, logged, self') = delta_energy_consumption now w ATTR_HEAT True self
        in (Some energy, logged, self'))"

subsection \<open>A refresh cycle\<close>

text \<open>
  \<^verbatim>\<open>update_status\<close> merges the fetched responses into \<^verbatim>\<open>self.values\<close>, a later one
  overwriting an earlier one, and then calls the recorder. The responses are inputs
  of the model; a fetch that fails never reaches the recorder.
\<close>

definition update_status :: "clock_reads \<Rightarrow> (string \<rightharpoonup> string) list \<Rightarrow> appliance \<Rightarrow> error option \<times> appliance" where
  "update_status clk fetched self =
     register_energy_consumption_history clk
       (self\<lparr>raw_values := foldl (++) (raw_values self) fetched\<rparr>)"

text \<open>
  A sequence of refresh cycles on one appliance; a caller that polls goes on after a
  cycle that raised. \<open>recorder_runs\<close> lists, for each cycle, the clock readings and the
  appliance on which the recorder ran. Both are drivers for the statements about
  sequences of cycles, not code of the repository.
\<close>

fun refreshes :: "(clock_reads \<times> (string \<rightharpoonup> string) list) list \<Rightarrow> appliance \<Rightarrow> appliance" where
  "refreshes [] self = self"
| "refreshes ((clk, fetched) # rest) self = refreshes rest (snd (update_status clk fetched self))"

fun recorder_runs :: "(clock_reads \<times> (string \<rightharpoonup> string) list) list \<Rightarrow> appliance \<Rightarrow> (clock_reads \<times> appliance) list" where
  "recorder_runs [] self = []"
| "recorder_runs ((clk, fetched) # rest) self =
     (clk, self\<lparr>raw_values := foldl (++) (raw_values self) fetched\<rparr>) #
     recorder_runs rest (snd (update_status clk fetched self))"

subsection \<open>Notions of the specification\<close>

text \<open>
  The definitions of this subsection are not code of the repository: they name what the
  specification talks about, for the statements of the theorems.

  \<open>history_of self mode\<close> is the list that \<^verbatim>\<open>self._energy_consumption_history[mode]\<close>
  reads: empty for a key that is not in the dict.
\<close>

definition history_of :: "appliance \<Rightarrow> string \<Rightarrow> snapshot list" where
  "history_of self mode = (case energy_consumption_history self mode of None \<Rightarrow> [] | Some xs \<Rightarrow> xs)"

text \<open>
  The contribution of a pair (newer, older) in the two cases of the specification,
  normal growth and day rollover, and the anomaly, where neither case applies (the
  contribution of an anomalous pair is not used).
\<close>

definition contribution :: "snapshot \<times> snapshot \<Rightarrow> rat" where
  "contribution p =
     (case p of ((_, newer_today, newer_yesterday), (_, older_today, _)) \<Rightarrow>
        if newer_today > older_today then newer_today - older_today
        else (newer_yesterday - older_today) + newer_today)"

definition anomaly :: "snapshot \<times> snapshot \<Rightarrow> bool" where
  "anomaly p =
     (case p of ((_, newer_today, newer_yesterday), (_, older_today, _)) \<Rightarrow>
        newer_today \<le> older_today \<and> newer_yesterday < older_today)"

text \<open>
  Pair number \<open>i\<close> is inside the window when its newer snapshot is later than the clock,
  as read for that pair, minus the window.
\<close>

definition in_window :: "(nat \<Rightarrow> int) \<Rightarrow> int \<Rightarrow> nat \<times> snapshot \<times> snapshot \<Rightarrow> bool" where
  "in_window now dt ip = (case ip of (i, (newer_dt, _, _), _) \<Rightarrow> now i - dt < newer_dt)"

text \<open>
  A helper for the induction over the loop: the pairs, numbered from \<open>i\<close>, up to the
  first one outside the window, and only the first of them under \<open>early_break\<close>.
\<close>

definition walked_from :: "(nat \<Rightarrow> int) \<Rightarrow> int \<Rightarrow> bool \<Rightarrow> nat \<Rightarrow> (snapshot \<times> snapshot) list \<Rightarrow> (snapshot \<times> snapshot) list" where
  "walked_from now dt early_break i ps =
     (let inside = map snd (takeWhile (in_window now dt) (enumerate i ps))
      in if early_break then take 1 inside else inside)"

text \<open>Newest first: the timestamps do not increase along the list.\<close>

definition newest_first :: "snapshot list \<Rightarrow> bool" where
  "newest_first hist = sorted_wrt (\<lambda>a b. fst b \<le> fst a) hist"

text \<open>
  What a run of the loop body that does not raise leaves as the history of its mode,
  from the extracted pair and the list it found (lemma \<open>register_mode_Inr\<close>).
\<close>

definition recorded :: "clock_reads \<Rightarrow> string \<Rightarrow> rat \<Rightarrow> rat \<Rightarrow> snapshot list \<Rightarrow> snapshot list" where
  "recorded clk mode today yesterday hist =
     (if hist \<noteq> [] \<and> snd (hd hist) = (today, yesterday) then hist
      else prune (prune_now clk mode) ((new_state_now clk mode, today, yesterday) # hist))"

text \<open>
  The histories of all modes are newest first, and no entry is later than the reading
  that stamps the new state of its mode.
\<close>

definition chronological :: "clock_reads \<Rightarrow> appliance \<Rightarrow> bool" where
  "chronological clk self =
     (\<forall>mode. newest_first (history_of self mode) \<and>
             (\<forall>s \<in> set (history_of self mode). fst s \<le> new_state_now clk mode))"

section \<open>Lemmas about the integrator\<close>

lemma delta_loop_sum:
  "\<forall>p \<in> set (walked_from now dt eb i ps). \<not> anomaly p \<Longrightarrow>
   delta_loop now dt eb i energy ps =
   (energy + sum_list (map contribution (walked_from now dt eb i ps)), [])"
proof (induction ps arbitrary: i energy)
  case Nil
  then show ?case by (simp add: walked_from_def)
next
  case (Cons p ps)
  obtain dt2 st2 sy2 dt1 st1 sy1 where p: "p = ((dt2, st2, sy2), (dt1, st1, sy1))"
    by (metis prod_cases3)
  show ?case
  proof (cases "dt2 \<le> now i - dt")
    case True
    then show ?thesis by (simp add: p walked_from_def in_window_def)
  next
    case False
    then have w: "in_window now dt (i, p)" by (simp add: p in_window_def)
    show ?thesis
    proof (cases eb)
      case True
      with Cons.prems w False show ?thesis
        by (auto simp: p walked_from_def anomaly_def contribution_def)
    next
      case nb: False
      from w nb have wf: "walked_from now dt eb i (p # ps) = p # walked_from now dt eb (Suc i) ps"
        by (simp add: walked_from_def)
      with Cons.prems have na: "\<not> anomaly p"
        and rest: "\<forall>q \<in> set (walked_from now dt eb (Suc i) ps). \<not> anomaly q"
        by simp_all
      from na False nb have step: "delta_loop now dt eb i energy (p # ps) =
          delta_loop now dt eb (Suc i) (energy + contribution p) ps"
        by (auto simp: p anomaly_def contribution_def add.assoc)
      show ?thesis
        unfolding step Cons.IH[OF rest] wf by (simp add: add.assoc)
    qed
  qed
qed

lemma delta_loop_anomaly:
  "k < length ps \<Longrightarrow> anomaly (ps ! k) \<Longrightarrow> \<forall>j \<le> k. in_window now dt (i + j, ps ! j) \<Longrightarrow>
   (eb \<longrightarrow> k = 0) \<Longrightarrow>
   delta_loop now dt eb i energy ps = (0, [''Impossible energy consumption measure''])"
proof (induction ps arbitrary: i energy k)
  case Nil
  then show ?case by simp
next
  case (Cons p ps)
  obtain dt2 st2 sy2 dt1 st1 sy1 where p: "p = ((dt2, st2, sy2), (dt1, st1, sy1))"
    by (metis prod_cases3)
  from Cons.prems(3) have w: "in_window now dt (i, p)"
    by (metis add.right_neutral le0 nth_Cons_0)
  show ?case
  proof (cases k)
    case 0
    with Cons.prems w show ?thesis by (auto simp: p anomaly_def in_window_def)
  next
    case (Suc k')
    with Cons.prems have nb: "\<not> eb" by simp
    have "delta_loop now dt eb (Suc i) e ps = (0, [''Impossible energy consumption measure''])" for e
    proof (rule Cons.IH[of k'])
      show "k' < length ps" using Cons.prems Suc by simp
      show "anomaly (ps ! k')" using Cons.prems Suc by simp
      show "\<forall>j\<le>k'. in_window now dt (Suc i + j, ps ! j)"
      proof (intro allI impI)
        fix j assume "j \<le> k'"
        then have "Suc j \<le> k" using Suc by simp
        with Cons.prems(3) have "in_window now dt (i + Suc j, (p # ps) ! Suc j)" by blast
        then show "in_window now dt (Suc i + j, ps ! j)" by simp
      qed
      show "eb \<longrightarrow> k' = 0" using nb by simp
    qed
    with w nb show ?thesis by (auto simp: p in_window_def Let_def)
  qed
qed

lemma dd_get_history_of: "fst (dd_get (energy_consumption_history self) mode) = history_of self mode"
  by (simp add: dd_get_def history_of_def split: option.splits)

lemma delta_energy_consumption_loop:
  "delta_energy_consumption now dt mode eb self =
   (fst (delta_loop now dt eb 0 0 (zip (history_of self mode) (tl (history_of self mode)))),
    snd (delta_loop now dt eb 0 0 (zip (history_of self mode) (tl (history_of self mode)))),
    self\<lparr>energy_consumption_history := snd (dd_get (energy_consumption_history self) mode)\<rparr>)"
  by (simp add: delta_energy_consumption_def dd_get_history_of[symmetric] split: prod.splits)

lemma delta_energy_consumption_state:
  "snd (snd (delta_energy_consumption now dt mode eb self)) =
   self\<lparr>energy_consumption_history :=
     (case energy_consumption_history self mode of
        None \<Rightarrow> (energy_consumption_history self)(mode \<mapsto> [])
      | Some xs \<Rightarrow> energy_consumption_history self)\<rparr>"
  by (simp add: delta_energy_consumption_loop dd_get_def split: option.splits)

lemma current_total_power_consumption_eq:
  "current_total_power_consumption now self =
     (if dom (energy_consumption_history self) = {} then (None, [], self)
      else (Some (fst (delta_energy_consumption now (minutes 30) ''total'' False self) * 2),
            snd (delta_energy_consumption now (minutes 30) ''total'' False self)))"
  by (simp add: current_total_power_consumption_def minutes_def hours_def split: prod.splits)

lemma last_hour_cool_power_consumption_eq:
  "last_hour_cool_power_consumption now self =
     (if dom (energy_consumption_history self) = {} then (None, [], self)
      else (Some (fst (delta_energy_consumption now (minutes 65) ATTR_COOL True self)),
            snd (delta_energy_consumption now (minutes 65) ATTR_COOL True self)))"
  by (simp add: last_hour_cool_power_consumption_def split: prod.splits)

lemma last_hour_heat_power_consumption_eq:
  "last_hour_heat_power_consumption now self =
     (if dom (energy_consumption_history self) = {} then (None, [], self)
      else (Some (fst (delta_energy_consumption now (minutes 65) ATTR_HEAT True self)),
            snd (delta_energy_consumption now (minutes 65) ATTR_HEAT True self)))"
  by (simp add: last_hour_heat_power_consumption_def split: prod.splits)

lemma in_window_fst: "in_window now dt (i, p) \<longleftrightarrow> now i - dt < fst (fst p)"
  by (simp add: in_window_def split: prod.splits)

lemma outside_after_first_outside:
  assumes "sorted_wrt (\<lambda>p q. fst (fst q) \<le> fst (fst p)) ps"
    and "\<forall>i j. i \<le> j \<longrightarrow> now i \<le> (now j :: int)"
  shows "\<forall>x \<in> set (dropWhile (in_window now dt) (enumerate i ps)). \<not> in_window now dt x"
  using assms(1)
proof (induction ps arbitrary: i)
  case Nil
  then show ?case by simp
next
  case (Cons p ps)
  show ?case
  proof (cases "in_window now dt (i, p)")
    case True
    from Cons.prems have "sorted_wrt (\<lambda>p q. fst (fst q) \<le> fst (fst p)) ps" by simp
    then have ih: "\<forall>x \<in> set (dropWhile (in_window now dt) (enumerate (Suc i) ps)).
        \<not> in_window now dt x" by (rule Cons.IH)
    from True have eq: "dropWhile (in_window now dt) (enumerate i (p # ps)) =
        dropWhile (in_window now dt) (enumerate (Suc i) ps)" by simp
    show ?thesis unfolding eq by (rule ih)
  next
    case False
    have rest: "\<not> in_window now dt x" if "x \<in> set (enumerate (Suc i) ps)" for x
    proof -
      obtain j q where x: "x = (j, q)" by (cases x)
      from that have j: "Suc i \<le> j" by (simp add: x in_set_enumerate_eq)
      from that have "snd x \<in> set (map snd (enumerate (Suc i) ps))" by (simp del: map_snd_enumerate)
      then have q: "q \<in> set ps" by (simp add: x)
      from Cons.prems q have "fst (fst q) \<le> fst (fst p)" by simp
      moreover from False have "fst (fst p) \<le> now i - dt"
        by (simp add: in_window_fst)
      moreover from assms(2) j have "now i \<le> now j" by simp
      ultimately have "fst (fst q) \<le> now j - dt" by linarith
      then show ?thesis by (simp add: x in_window_fst)
    qed
    from False have "dropWhile (in_window now dt) (enumerate i (p # ps)) =
        (i, p) # enumerate (Suc i) ps" by simp
    then have seteq: "set (dropWhile (in_window now dt) (enumerate i (p # ps))) =
        insert (i, p) (set (enumerate (Suc i) ps))" by simp
    show ?thesis
    proof
      fix x assume "x \<in> set (dropWhile (in_window now dt) (enumerate i (p # ps)))"
      with seteq have "x = (i, p) \<or> x \<in> set (enumerate (Suc i) ps)" by simp
      then show "\<not> in_window now dt x"
      proof
        assume "x = (i, p)"
        with False show ?thesis by simp
      next
        assume "x \<in> set (enumerate (Suc i) ps)"
        then show ?thesis by (rule rest)
      qed
    qed
  qed
qed

lemma delta_energy_consumption_short:
  assumes "length (history_of self mode) \<le> 1"
  shows "fst (delta_energy_consumption now dt mode eb self) = 0"
    and "fst (snd (delta_energy_consumption now dt mode eb self)) = []"
proof -
  from assms have "tl (history_of self mode) = []"
    by (cases "history_of self mode") auto
  then have z: "zip (history_of self mode) (tl (history_of self mode)) = []" by simp
  show "fst (delta_energy_consumption now dt mode eb self) = 0"
    and "fst (snd (delta_energy_consumption now dt mode eb self)) = []"
    unfolding delta_energy_consumption_loop z by simp_all
qed

lemma inside_is_filter:
  assumes "newest_first hist" and "\<forall>i j. i \<le> j \<longrightarrow> now i \<le> (now j :: int)"
  shows "takeWhile (in_window now dt) (enumerate 0 (zip hist (tl hist))) =
         filter (in_window now dt) (enumerate 0 (zip hist (tl hist)))"
proof (rule takeWhile_eq_filter)
  have "sorted_wrt (\<lambda>a b. fst b \<le> fst a) (take (length (tl hist)) hist)"
    using assms(1) unfolding newest_first_def by (rule sorted_wrt_take)
  then have "sorted_wrt (\<lambda>a b. fst b \<le> fst a) (map fst (zip hist (tl hist)))"
    by (simp add: map_fst_zip_take)
  then have s: "sorted_wrt (\<lambda>p q. fst (fst q) \<le> fst (fst p)) (zip hist (tl hist))"
    by (simp add: sorted_wrt_map)
  fix x assume "x \<in> set (dropWhile (in_window now dt) (enumerate 0 (zip hist (tl hist))))"
  with outside_after_first_outside[OF s assms(2), of dt 0] show "\<not> in_window now dt x" by blast
qed

section \<open>Lemmas about the recorder\<close>

lemma fold_min_least: "\<forall>y \<in> set xs. x \<le> y \<Longrightarrow> fold min xs (x::nat) = x"
  by (induction xs) (auto simp: min_def dest: order_antisym)

lemma stale_first:
  "min_default (map fst (filter P (enumerate n xs))) (n + length xs) =
   n + length (takeWhile (\<lambda>ix. \<not> P ix) (enumerate n xs))"
proof (induction xs arbitrary: n)
  case Nil
  then show ?case by simp
next
  case (Cons x xs)
  show ?case
  proof (cases "P (n, x)")
    case True
    have "\<forall>y \<in> set (map fst (filter P (enumerate (Suc n) xs))). n \<le> y"
      by (auto simp: in_set_enumerate_eq)
    then show ?thesis using True by (simp add: fold_min_least)
  next
    case False
    then show ?thesis using Cons.IH[of "Suc n"] by simp
  qed
qed

lemma takeWhile_enumerate_const:
  "(\<And>i x. P (i, x) = Q x) \<Longrightarrow>
   length (takeWhile P (enumerate n xs)) = length (takeWhile Q xs)"
  by (induction xs arbitrary: n) simp_all

lemma prune_constant_clock:
  assumes "\<And>i. now i = c"
  shows "prune now hist =
         take (Suc (length (takeWhile (\<lambda>s. c - POWER_CONSUMPTION_MAX_HISTORY \<le> fst s) hist))) hist"
proof -
  let ?P = "\<lambda>(i, (dt, _, _)). dt < now i - POWER_CONSUMPTION_MAX_HISTORY"
  have "min_default (stale_indices now hist) (length hist) =
        length (takeWhile (\<lambda>ix. \<not> ?P ix) (enumerate 0 hist))"
    unfolding stale_indices_def using stale_first[of ?P 0 hist] by simp
  also have "\<dots> = length (takeWhile (\<lambda>s. c - POWER_CONSUMPTION_MAX_HISTORY \<le> fst s) hist)"
    by (rule takeWhile_enumerate_const) (auto simp: assms)
  finally show ?thesis by (simp add: prune_def)
qed

lemma prune_is_take: "\<exists>n. 0 < n \<and> prune now hist = take n hist"
  by (auto simp: prune_def)

lemma prune_nonempty: "hist \<noteq> [] \<Longrightarrow> prune now hist \<noteq> []"
  by (simp add: prune_def)

lemma prune_hd: "hist \<noteq> [] \<Longrightarrow> hd (prune now hist) = hd hist"
  by (cases hist) (simp_all add: prune_def)

lemma prune_single: "prune now [s] = [s]"
  by (simp add: prune_def)

lemma newest_first_stale_tail:
  "newest_first xs \<Longrightarrow> \<forall>s \<in> set (dropWhile (\<lambda>s. c \<le> fst s) xs). fst s < c"
  by (induction xs) (auto simp: newest_first_def)

lemma take_Suc_takeWhile:
  "take (Suc (length (takeWhile P xs))) xs = takeWhile P xs @ take 1 (dropWhile P xs)"
proof -
  have "take (Suc (length (takeWhile P xs))) (takeWhile P xs @ dropWhile P xs) =
        takeWhile P xs @ take 1 (dropWhile P xs)"
    by (simp del: takeWhile_dropWhile_id)
  then show ?thesis by simp
qed


lemma today_raw_values:
  "raw_values a = raw_values b \<Longrightarrow> today_energy_consumption a mode = today_energy_consumption b mode"
  by (simp add: today_energy_consumption_def energy_consumption_def)

lemma yesterday_raw_values:
  "raw_values a = raw_values b \<Longrightarrow> yesterday_energy_consumption a mode = yesterday_energy_consumption b mode"
  by (simp add: yesterday_energy_consumption_def energy_consumption_def)

lemma register_mode_Inr:
  assumes "today_energy_consumption self mode = Inr t"
    and "yesterday_energy_consumption self mode = Inr y"
  shows "register_mode clk mode self =
         Inr (self\<lparr>energy_consumption_history :=
                (energy_consumption_history self)(mode \<mapsto> recorded clk mode t y (history_of self mode))\<rparr>)"
proof (cases "energy_consumption_history self mode")
  case None
  then show ?thesis
    using assms by (simp add: register_mode_def dd_get_def recorded_def history_of_def)
next
  case (Some hist)
  show ?thesis
  proof (cases hist)
    case Nil
    with Some show ?thesis
      using assms by (simp add: register_mode_def dd_get_def recorded_def history_of_def)
  next
    case (Cons old rest)
    obtain dt1 t1 y1 where old: "old = (dt1, t1, y1)" by (cases old)
    have same: "(energy_consumption_history self)(mode \<mapsto> hist) = energy_consumption_history self"
      using Some by (simp add: map_upd_triv)
    show ?thesis
      using assms Some Cons old same
      by (auto simp: register_mode_def dd_get_def recorded_def history_of_def)
  qed
qed

lemma register_mode_extracts:
  "register_mode clk mode self = Inr self' \<Longrightarrow>
   \<exists>t y. today_energy_consumption self mode = Inr t \<and> yesterday_energy_consumption self mode = Inr y"
  by (auto simp: register_mode_def split: sum.splits)

lemma pruned_window:
  assumes ordered: "newest_first full"
    and kept: "kept = take (Suc (length (takeWhile (\<lambda>s. cutoff \<le> fst s) full))) full"
    and ne: "full \<noteq> []"
  shows "filter (\<lambda>s. cutoff \<le> fst s) kept = filter (\<lambda>s. cutoff \<le> fst s) full"
    and "length (filter (\<lambda>s. fst s < cutoff) kept) \<le> 1"
    and "(\<exists>s \<in> set full. fst s < cutoff) \<Longrightarrow>
         filter (\<lambda>s. fst s < cutoff) kept = [hd (filter (\<lambda>s. fst s < cutoff) full)]"
    and "(\<exists>s \<in> set full. fst s < cutoff) \<Longrightarrow>
         \<forall>s \<in> set full. fst s < cutoff \<longrightarrow> fst s \<le> fst (hd (filter (\<lambda>s. fst s < cutoff) full))"
    and "kept \<noteq> []"
    and "(\<forall>s \<in> set full. cutoff \<le> fst s) \<Longrightarrow> kept = full"
proof -
  let ?fresh = "\<lambda>s::snapshot. cutoff \<le> fst s"
  let ?stale = "\<lambda>s::snapshot. fst s < cutoff"
  let ?F = "takeWhile ?fresh full"
  let ?D = "dropWhile ?fresh full"
  have split: "full = ?F @ ?D" by simp
  have k: "kept = ?F @ take 1 ?D" unfolding kept by (rule take_Suc_takeWhile)
  have F: "\<forall>s \<in> set ?F. ?fresh s" by (auto dest: set_takeWhileD)
  have D: "\<forall>s \<in> set ?D. ?stale s" using ordered by (rule newest_first_stale_tail)
  have D1: "\<forall>s \<in> set (take 1 ?D). ?stale s" using D by (auto dest: in_set_takeD)
  have fF: "filter ?fresh ?F = ?F" "filter ?stale ?F = []" using F by (auto simp: filter_empty_conv)
  have fD: "filter ?fresh ?D = []" "filter ?stale ?D = ?D" using D by (auto simp: filter_empty_conv)
  have fD1: "filter ?fresh (take 1 ?D) = []" "filter ?stale (take 1 ?D) = take 1 ?D"
    using D1 by (auto simp: filter_empty_conv)
  have ffull: "filter ?fresh full = ?F" "filter ?stale full = ?D"
  proof -
    have "filter ?fresh (?F @ ?D) = ?F" using fF fD by (simp del: takeWhile_dropWhile_id)
    then show "filter ?fresh full = ?F" by simp
    have "filter ?stale (?F @ ?D) = ?D" using fF fD by (simp del: takeWhile_dropWhile_id)
    then show "filter ?stale full = ?D" by simp
  qed
  show "filter ?fresh kept = filter ?fresh full" using fF fD1 ffull by (simp add: k)
  have sk: "filter ?stale kept = take 1 ?D" using fF fD1 by (simp add: k)
  show "length (filter ?stale kept) \<le> 1" by (simp add: sk)
  show "kept \<noteq> []"
  proof (cases "?D")
    case Nil
    then have "?F \<noteq> []" using split ne by (metis append_Nil2)
    then show ?thesis by (simp add: k)
  next
    case (Cons d ds)
    then show ?thesis by (simp add: k)
  qed
  show "kept = full" if "\<forall>s \<in> set full. cutoff \<le> fst s"
  proof -
    from that have dnil: "?D = []" by simp
    have "kept = ?F @ ?D" unfolding k dnil by simp
    then show ?thesis by simp
  qed
  {
    assume ex: "\<exists>s \<in> set full. fst s < cutoff"
    then have "filter ?stale full \<noteq> []" by (simp add: filter_empty_conv)
    then have Dne: "?D \<noteq> []" unfolding ffull(2) .
    then obtain d ds where dd: "?D = d # ds" by (cases ?D) auto
    show "filter ?stale kept = [hd (filter ?stale full)]" by (simp add: sk ffull dd)
    have "sorted_wrt (\<lambda>a b. fst b \<le> fst a) (?F @ ?D)"
      using ordered by (simp add: newest_first_def)
    then have sD: "sorted_wrt (\<lambda>a b. fst b \<le> fst a) ?D"
      by (simp add: sorted_wrt_append del: takeWhile_dropWhile_id)
    have "fst s \<le> fst d" if "s \<in> set full" "fst s < cutoff" for s
    proof -
      from that have "s \<in> set (filter ?stale full)" by simp
      then have "s \<in> set ?D" using ffull(2) by simp
      then show ?thesis using sD dd by auto
    qed
    then show "\<forall>s \<in> set full. fst s < cutoff \<longrightarrow> fst s \<le> fst (hd (filter ?stale full))"
      by (simp add: ffull dd)
  }
qed

lemma register_mode_frame:
  assumes "register_mode clk mode self = Inr self'"
  shows "raw_values self' = raw_values self"
    and "m \<noteq> mode \<Longrightarrow> energy_consumption_history self' m = energy_consumption_history self m"
    and "m \<noteq> mode \<Longrightarrow> history_of self' m = history_of self m"
proof -
  from register_mode_extracts[OF assms] obtain t y
    where "today_energy_consumption self mode = Inr t" "yesterday_energy_consumption self mode = Inr y"
    by blast
  from register_mode_Inr[OF this, of clk] assms
  have s: "self' = self\<lparr>energy_consumption_history :=
                (energy_consumption_history self)(mode \<mapsto> recorded clk mode t y (history_of self mode))\<rparr>"
    by simp
  show "raw_values self' = raw_values self" by (simp add: s)
  show "m \<noteq> mode \<Longrightarrow> energy_consumption_history self' m = energy_consumption_history self m"
    by (simp add: s)
  then show "m \<noteq> mode \<Longrightarrow> history_of self' m = history_of self m"
    by (simp add: history_of_def)
qed

lemma register_modes_frame:
  "mode \<notin> set ms \<Longrightarrow>
   energy_consumption_history (snd (register_modes clk ms self)) mode = energy_consumption_history self mode"
proof (induction ms arbitrary: self)
  case Nil
  then show ?case by simp
next
  case (Cons m ms)
  show ?case
  proof (cases "register_mode clk m self")
    case (Inl e)
    then show ?thesis by simp
  next
    case (Inr self1)
    from Cons.prems have "mode \<noteq> m" "mode \<notin> set ms" by auto
    with Cons.IH[of self1] register_mode_frame(2)[OF Inr, of mode] Inr show ?thesis by simp
  qed
qed

lemma ints_of_Some: "ints_of xs = Some ns \<longleftrightarrow> map py_int xs = map Some ns"
proof (induction xs arbitrary: ns)
  case Nil
  then show ?case by auto
next
  case (Cons x xs)
  show ?case
  proof (cases "py_int x")
    case None
    then show ?thesis by (cases ns) auto
  next
    case (Some n)
    show ?thesis
    proof (cases "ints_of xs")
      case None
      with Cons.IH have "\<And>ms. map py_int xs \<noteq> map Some ms" by simp
      with None Some show ?thesis by (cases ns) auto
    next
      case inner: (Some ms)
      with Cons.IH[of ms] have m: "map py_int xs = map Some ms" by simp
      then have "map py_int xs = map Some ms' \<longleftrightarrow> ms' = ms" for ms'
        by (auto dest: map_inj_on[of Some ms ms'] simp: inj_on_def)
      with inner Some show ?thesis by (cases ns) auto
    qed
  qed
qed

lemma split_on_nonempty: "split_on c s \<noteq> []"
  by (induction s) (auto split: list.splits)

lemma recorded_head:
  "recorded clk mode t y hist \<noteq> [] \<and> snd (hd (recorded clk mode t y hist)) = (t, y)"
  by (simp add: recorded_def prune_nonempty prune_hd)

lemma register_total_first:
  assumes "support_energy_consumption self = Inr True"
    and "today_energy_consumption self ATTR_TOTAL = Inr t"
    and "yesterday_energy_consumption self ATTR_TOTAL = Inr y"
  shows "history_of (snd (register_energy_consumption_history clk self)) ATTR_TOTAL =
         recorded clk ATTR_TOTAL t y (history_of self ATTR_TOTAL)"
proof -
  let ?self1 = "self\<lparr>energy_consumption_history :=
      (energy_consumption_history self)(ATTR_TOTAL \<mapsto> recorded clk ATTR_TOTAL t y (history_of self ATTR_TOTAL))\<rparr>"
  have "ATTR_TOTAL \<notin> set [ATTR_COOL, ATTR_HEAT]"
    by (simp add: ATTR_TOTAL_def ATTR_COOL_def ATTR_HEAT_def)
  from register_modes_frame[OF this, of clk ?self1]
  have "energy_consumption_history (snd (register_modes clk [ATTR_COOL, ATTR_HEAT] ?self1)) ATTR_TOTAL =
        Some (recorded clk ATTR_TOTAL t y (history_of self ATTR_TOTAL))"
    by simp
  moreover have "register_energy_consumption_history clk self =
                 register_modes clk [ATTR_COOL, ATTR_HEAT] ?self1"
    using assms(1) register_mode_Inr[OF assms(2,3), of clk]
    by (simp add: register_energy_consumption_history_def)
  ultimately show ?thesis by (simp add: history_of_def)
qed

text \<open>The definitions that \<open>simp\<close> unfolds to run the recorder on a concrete appliance.\<close>

lemmas recorder_eval =
  register_energy_consumption_history_def support_energy_consumption_def or_zero_def
  py_int_def strip_def is_space_def is_digit_def unsigned_int_def digit_val_def
  register_mode_def today_energy_consumption_def yesterday_energy_consumption_def
  energy_consumption_def last_div_def sum_div_def from_end_def
  ATTR_TOTAL_def ATTR_COOL_def ATTR_HEAT_def dd_get_def prune_def stale_indices_def
  POWER_CONSUMPTION_MAX_HISTORY_def hours_def enumerate_eq_zip

lemma history_of_raw_values_update [simp]:
  "history_of (self\<lparr>raw_values := v\<rparr>) mode = history_of self mode"
  by (simp add: history_of_def)

lemma recorded_chronological:
  assumes "newest_first hist" and "\<forall>s \<in> set hist. fst s \<le> new_state_now clk mode"
  shows "newest_first (recorded clk mode t y hist) \<and>
         (\<forall>s \<in> set (recorded clk mode t y hist). fst s \<le> new_state_now clk mode)"
proof (cases "hist \<noteq> [] \<and> snd (hd hist) = (t, y)")
  case True
  with assms show ?thesis by (simp add: recorded_def)
next
  case False
  let ?full = "(new_state_now clk mode, t, y) # hist"
  obtain n where n: "prune (prune_now clk mode) ?full = take n ?full"
    using prune_is_take by blast
  have "newest_first ?full" using assms by (simp add: newest_first_def)
  then have "newest_first (take n ?full)"
    unfolding newest_first_def by (rule sorted_wrt_take)
  moreover have "\<forall>s \<in> set (take n ?full). fst s \<le> new_state_now clk mode"
  proof
    fix s assume "s \<in> set (take n ?full)"
    then have "s \<in> set ?full" by (rule in_set_takeD)
    with assms(2) show "fst s \<le> new_state_now clk mode" by auto
  qed
  moreover have "recorded clk mode t y hist = take n ?full"
    unfolding recorded_def if_not_P[OF False] by (rule n)
  ultimately show ?thesis by simp
qed

lemma register_mode_chronological:
  assumes "chronological clk self" and "register_mode clk mode self = Inr self'"
  shows "chronological clk self'"
proof -
  from register_mode_extracts[OF assms(2)] obtain t y
    where e: "today_energy_consumption self mode = Inr t" "yesterday_energy_consumption self mode = Inr y"
    by blast
  from register_mode_Inr[OF e, of clk] assms(2)
  have h: "history_of self' m =
           (if m = mode then recorded clk mode t y (history_of self mode) else history_of self m)" for m
    by (auto simp: history_of_def)
  from assms(1) have "newest_first (history_of self mode)"
    "\<forall>s \<in> set (history_of self mode). fst s \<le> new_state_now clk mode"
    by (simp_all add: chronological_def)
  from recorded_chronological[OF this] assms(1) show ?thesis
    by (simp add: chronological_def h)
qed

lemma register_modes_chronological:
  "chronological clk self \<Longrightarrow> chronological clk (snd (register_modes clk ms self))"
proof (induction ms arbitrary: self)
  case Nil
  then show ?case by simp
next
  case (Cons m ms)
  show ?case
  proof (cases "register_mode clk m self")
    case (Inl e)
    with Cons.prems show ?thesis by simp
  next
    case (Inr self1)
    from Cons.IH[OF register_mode_chronological[OF Cons.prems Inr]] Inr show ?thesis by simp
  qed
qed

lemma update_status_chronological:
  assumes "chronological clk self"
  shows "chronological clk (snd (update_status clk fetched self))"
proof -
  let ?a = "self\<lparr>raw_values := foldl (++) (raw_values self) fetched\<rparr>"
  from assms have a: "chronological clk ?a" by (simp add: chronological_def)
  show ?thesis
  proof (cases "support_energy_consumption ?a")
    case (Inl e)
    with a show ?thesis by (simp add: update_status_def register_energy_consumption_history_def)
  next
    case (Inr supported)
    with a register_modes_chronological[OF a, of "[ATTR_TOTAL, ATTR_COOL, ATTR_HEAT]"]
    show ?thesis
      by (simp add: update_status_def register_energy_consumption_history_def
          del: register_modes.simps)
  qed
qed

lemma register_modes_reaches:
  assumes "distinct ms" and "mode \<in> set ms"
    and "\<forall>m \<in> set (takeWhile (\<lambda>m. m \<noteq> mode) ms).
           \<exists>t y. today_energy_consumption self m = Inr t \<and> yesterday_energy_consumption self m = Inr y"
    and "today_energy_consumption self mode = Inr t"
    and "yesterday_energy_consumption self mode = Inr y"
  shows "energy_consumption_history (snd (register_modes clk ms self)) mode =
         Some (recorded clk mode t y (history_of self mode))"
  using assms
proof (induction ms arbitrary: self)
  case Nil
  then show ?case by simp
next
  case (Cons m ms)
  show ?case
  proof (cases "m = mode")
    case True
    let ?self1 = "self\<lparr>energy_consumption_history :=
        (energy_consumption_history self)(mode \<mapsto> recorded clk mode t y (history_of self mode))\<rparr>"
    from register_mode_Inr[OF Cons.prems(4,5), of clk] True
    have r: "register_mode clk m self = Inr ?self1" by simp
    from Cons.prems(1) True have "mode \<notin> set ms" by simp
    from register_modes_frame[OF this, of clk ?self1]
    have "energy_consumption_history (snd (register_modes clk ms ?self1)) mode =
          Some (recorded clk mode t y (history_of self mode))" by simp
    then show ?thesis by (simp add: r)
  next
    case False
    with Cons.prems(3) obtain t' y' where e: "today_energy_consumption self m = Inr t'"
      "yesterday_energy_consumption self m = Inr y'" by auto
    let ?self1 = "self\<lparr>energy_consumption_history :=
        (energy_consumption_history self)(m \<mapsto> recorded clk m t' y' (history_of self m))\<rparr>"
    from register_mode_Inr[OF e, of clk] have r: "register_mode clk m self = Inr ?self1" .
    have rv: "raw_values ?self1 = raw_values self" by simp
    have h: "history_of ?self1 mode = history_of self mode"
      using False by (simp add: history_of_def)
    have "energy_consumption_history (snd (register_modes clk ms ?self1)) mode =
          Some (recorded clk mode t y (history_of ?self1 mode))"
    proof (rule Cons.IH)
      show "distinct ms" using Cons.prems(1) by simp
      show "mode \<in> set ms" using Cons.prems(2) False by simp
      show "\<forall>m' \<in> set (takeWhile (\<lambda>m. m \<noteq> mode) ms).
              \<exists>t y. today_energy_consumption ?self1 m' = Inr t \<and>
                    yesterday_energy_consumption ?self1 m' = Inr y"
        using Cons.prems(3) False
        by (simp add: today_raw_values[OF rv] yesterday_raw_values[OF rv])
      show "today_energy_consumption ?self1 mode = Inr t"
        using Cons.prems(4) by (simp add: today_raw_values[OF rv])
      show "yesterday_energy_consumption ?self1 mode = Inr y"
        using Cons.prems(5) by (simp add: yesterday_raw_values[OF rv])
    qed
    then show ?thesis by (simp add: r h)
  qed
qed


lemma update_status_records:
  assumes "support_energy_consumption (self\<lparr>raw_values := foldl (++) (raw_values self) fetched\<rparr>) = Inr True"
    and "mode \<in> {ATTR_TOTAL, ATTR_COOL, ATTR_HEAT}"
    and "\<forall>m \<in> set (takeWhile (\<lambda>m. m \<noteq> mode) [ATTR_TOTAL, ATTR_COOL, ATTR_HEAT]).
           \<exists>t y. today_energy_consumption (self\<lparr>raw_values := foldl (++) (raw_values self) fetched\<rparr>) m = Inr t \<and>
                 yesterday_energy_consumption (self\<lparr>raw_values := foldl (++) (raw_values self) fetched\<rparr>) m = Inr y"
    and "today_energy_consumption (self\<lparr>raw_values := foldl (++) (raw_values self) fetched\<rparr>) mode = Inr t"
    and "yesterday_energy_consumption (self\<lparr>raw_values := foldl (++) (raw_values self) fetched\<rparr>) mode = Inr y"
  shows "history_of (snd (update_status clk fetched self)) mode =
         recorded clk mode t y (history_of self mode)"
proof -
  let ?a = "self\<lparr>raw_values := foldl (++) (raw_values self) fetched\<rparr>"
  let ?ms = "[ATTR_TOTAL, ATTR_COOL, ATTR_HEAT]"
  have d: "distinct ?ms" by (simp add: ATTR_TOTAL_def ATTR_COOL_def ATTR_HEAT_def)
  from assms(2) have m: "mode \<in> set ?ms" by auto
  from assms(1) have u: "update_status clk fetched self = register_modes clk ?ms ?a"
    by (simp add: update_status_def register_energy_consumption_history_def del: register_modes.simps)
  from register_modes_reaches[OF d m assms(3,4,5), of clk]
  show ?thesis unfolding u by (simp add: history_of_def del: register_modes.simps)
qed

lemma recorder_runs_take:
  "recorder_runs (take k ins) self = take k (recorder_runs ins self)"
proof (induction ins arbitrary: k self)
  case Nil
  then show ?case by simp
next
  case (Cons x rest)
  obtain clk fetched where x: "x = (clk, fetched)" by (cases x)
  show ?case by (cases k) (simp_all add: x Cons.IH)
qed

lemma refreshes_keep_entry:
  assumes "\<forall>(clk, a) \<in> set (recorder_runs ins self).
             support_energy_consumption a = Inr True \<and>
             (\<forall>m \<in> set (takeWhile (\<lambda>m. m \<noteq> mode) [ATTR_TOTAL, ATTR_COOL, ATTR_HEAT]).
                \<exists>t y. today_energy_consumption a m = Inr t \<and> yesterday_energy_consumption a m = Inr y) \<and>
             today_energy_consumption a mode = Inr t \<and>
             yesterday_energy_consumption a mode = Inr y"
    and "mode \<in> {ATTR_TOTAL, ATTR_COOL, ATTR_HEAT}"
    and "history_of self mode = [(d, t, y)]"
  shows "history_of (refreshes ins self) mode = [(d, t, y)]"
  using assms
proof (induction ins arbitrary: self)
  case Nil
  then show ?case by simp
next
  case (Cons x rest)
  obtain clk fetched where x: "x = (clk, fetched)" by (cases x)
  let ?a = "self\<lparr>raw_values := foldl (++) (raw_values self) fetched\<rparr>"
  let ?self1 = "snd (update_status clk fetched self)"
  from Cons.prems(1) have here: "support_energy_consumption ?a = Inr True"
    "\<forall>m \<in> set (takeWhile (\<lambda>m. m \<noteq> mode) [ATTR_TOTAL, ATTR_COOL, ATTR_HEAT]).
       \<exists>t y. today_energy_consumption ?a m = Inr t \<and> yesterday_energy_consumption ?a m = Inr y"
    "today_energy_consumption ?a mode = Inr t" "yesterday_energy_consumption ?a mode = Inr y"
    by (simp_all add: x del: takeWhile.simps)
  from Cons.prems(1) have later: "\<forall>(clk, a) \<in> set (recorder_runs rest ?self1).
             support_energy_consumption a = Inr True \<and>
             (\<forall>m \<in> set (takeWhile (\<lambda>m. m \<noteq> mode) [ATTR_TOTAL, ATTR_COOL, ATTR_HEAT]).
                \<exists>t y. today_energy_consumption a m = Inr t \<and> yesterday_energy_consumption a m = Inr y) \<and>
             today_energy_consumption a mode = Inr t \<and>
             yesterday_energy_consumption a mode = Inr y"
    by (simp add: x del: takeWhile.simps)
  from update_status_records[OF here(1) Cons.prems(2) here(2,3,4), of clk]
  have "history_of ?self1 mode = recorded clk mode t y [(d, t, y)]"
    by (simp add: Cons.prems(3))
  then have one: "history_of ?self1 mode = [(d, t, y)]" by (simp add: recorded_def)
  from Cons.IH[OF later Cons.prems(2) one] show ?case by (simp add: x)
qed

section \<open>The claims\<close>

text \<open>
  C1, as stated, fails under \<open>early_break\<close>: the loop stops after the first pair, so the
  contributions of the in-window pairs are not all summed. Here both pairs are inside a
  window of 65 minutes and neither is an anomaly; their contributions are 5 and 4, and
  the call returns 5.
\<close>

theorem early_break_drops_pairs_counterexample:
  "map snd (filter (in_window (\<lambda>_. 1700000000000000) (minutes 65))
      (enumerate 0 (zip [(1700000000000000, 50, 40), (1700000000000000 - minutes 10, 45, 40),
                         (1700000000000000 - minutes 20, 41, 40)]
                        (tl [(1700000000000000, 50, 40), (1700000000000000 - minutes 10, 45, 40),
                             (1700000000000000 - minutes 20, 41, 40)])))) =
     [((1700000000000000, 50, 40), (1700000000000000 - minutes 10, 45, 40)),
      ((1700000000000000 - minutes 10, 45, 40), (1700000000000000 - minutes 20, 41, 40))] \<and>
   \<not> anomaly ((1700000000000000, 50, 40), (1700000000000000 - minutes 10, 45, 40)) \<and>
   \<not> anomaly ((1700000000000000 - minutes 10, 45, 40), (1700000000000000 - minutes 20, 41, 40)) \<and>
   contribution ((1700000000000000, 50, 40), (1700000000000000 - minutes 10, 45, 40)) +
   contribution ((1700000000000000 - minutes 10, 45, 40), (1700000000000000 - minutes 20, 41, 40)) = 9 \<and>
   fst (delta_energy_consumption (\<lambda>_. 1700000000000000) (minutes 65) ''cool'' True
      \<lparr>raw_values = Map.empty,
       energy_consumption_history =
         [''cool'' \<mapsto> [(1700000000000000, 50, 40), (1700000000000000 - minutes 10, 45, 40),
                        (1700000000000000 - minutes 20, 41, 40)]]\<rparr>) = 5"
  by (simp add: in_window_def anomaly_def contribution_def minutes_def
      delta_energy_consumption_def dd_get_def)

text \<open>
  C1, amended. Let \<open>inside\<close> be the pairs (newer, older) before the first one outside the
  window, and \<open>walked\<close> all of them when \<open>early_break\<close> is unset and only the first of them
  when it is set. When no walked pair is an anomaly (the third case, claim C2), the
  returned energy is the sum over the walked pairs of \<open>newer.today - older.today\<close> when
  \<open>newer.today > older.today\<close> and of \<open>(newer.yesterday - older.today) + newer.today\<close>
  otherwise. On a history that is newest first, read by a clock that does not go back
  during the call, \<open>inside\<close> is the list of all in-window pairs. The witness is the
  scenario of the specification: two snapshots ten minutes apart, today 45 then 50,
  window of 30 minutes, result 5.
\<close>

theorem delta_sums_contributions:
  assumes "inside = map snd (takeWhile (in_window now dt)
             (enumerate 0 (zip (history_of self mode) (tl (history_of self mode)))))"
    and "walked = (if early_break then take 1 inside else inside)"
    and "\<forall>p \<in> set walked. \<not> anomaly p"
  shows "fst (delta_energy_consumption now dt mode early_break self) =
           sum_list (map contribution walked) \<and>
         (newest_first (history_of self mode) \<and> (\<forall>i j. i \<le> j \<longrightarrow> now i \<le> now j) \<longrightarrow>
            inside = map snd (filter (in_window now dt)
              (enumerate 0 (zip (history_of self mode) (tl (history_of self mode))))))"
proof -
  let ?ps = "zip (history_of self mode) (tl (history_of self mode))"
  have w: "walked = walked_from now dt early_break 0 ?ps"
    by (simp add: assms(1,2) walked_from_def)
  from delta_loop_sum[of now dt early_break 0 ?ps 0] assms(3)
  have "fst (delta_energy_consumption now dt mode early_break self) =
        sum_list (map contribution walked)"
    by (simp add: w delta_energy_consumption_loop)
  then show ?thesis
  proof (rule conjI)
    show "newest_first (history_of self mode) \<and> (\<forall>i j. i \<le> j \<longrightarrow> now i \<le> now j) \<longrightarrow>
            inside = map snd (filter (in_window now dt) (enumerate 0 ?ps))"
    proof
      assume a: "newest_first (history_of self mode) \<and> (\<forall>i j. i \<le> j \<longrightarrow> now i \<le> now j)"
      from inside_is_filter[OF conjunct1[OF a] conjunct2[OF a], of dt]
      show "inside = map snd (filter (in_window now dt) (enumerate 0 ?ps))"
        unfolding assms(1) by (rule arg_cong)
    qed
  qed
qed

theorem delta_sums_contributions_witness:
  "fst (delta_energy_consumption (\<lambda>_. 1700000000000000) (minutes 30) ''total'' False
      \<lparr>raw_values = Map.empty,
       energy_consumption_history =
         [''total'' \<mapsto> [(1700000000000000, 50, 40), (1700000000000000 - minutes 10, 45, 40)]]\<rparr>) = 5"
proof -
  let ?self = "\<lparr>raw_values = Map.empty,
       energy_consumption_history =
         [''total'' \<mapsto> [(1700000000000000, 50, 40), (1700000000000000 - minutes 10, 45, 40)]]\<rparr>"
  let ?now = "\<lambda>_::nat. 1700000000000000::int"
  let ?w = "[((1700000000000000, 50, 40), (1700000000000000 - minutes 10, 45, 40))] :: (snapshot \<times> snapshot) list"
  have i: "?w = map snd (takeWhile (in_window ?now (minutes 30))
             (enumerate 0 (zip (history_of ?self ''total'') (tl (history_of ?self ''total'')))))"
    by (simp add: history_of_def in_window_def minutes_def)
  have w: "?w = (if False then take 1 ?w else ?w)" by simp
  have h: "\<forall>p \<in> set ?w. \<not> anomaly p" by (simp add: anomaly_def)
  have s: "sum_list (map contribution ?w) = 5" by (simp add: contribution_def)
  from delta_sums_contributions[of ?w ?now "minutes 30" ?self "''total''" ?w False, OF i w h]
  have "fst (delta_energy_consumption ?now (minutes 30) ''total'' False ?self) =
        sum_list (map contribution ?w)" by (rule conjunct1)
  then show ?thesis using s by (rule trans)
qed

text \<open>
  C2, as stated, fails under \<open>early_break\<close>: the walk stops after the first pair, so an
  anomaly in the second pair, inside the window, is never seen. Here the first pair
  grows by 5, the second is an anomaly (45 after 60, yesterday 40), and the call
  returns 5 and logs nothing.
\<close>

theorem anomaly_beyond_early_break_counterexample:
  "anomaly ((1700000000000000 - minutes 10, 45, 40), (1700000000000000 - minutes 20, 60, 40)) \<and>
   in_window (\<lambda>_. 1700000000000000) (minutes 65)
     (1, (1700000000000000 - minutes 10, 45, 40), (1700000000000000 - minutes 20, 60, 40)) \<and>
   delta_energy_consumption (\<lambda>_. 1700000000000000) (minutes 65) ''cool'' True
      \<lparr>raw_values = Map.empty,
       energy_consumption_history =
         [''cool'' \<mapsto> [(1700000000000000, 50, 40), (1700000000000000 - minutes 10, 45, 40),
                        (1700000000000000 - minutes 20, 60, 40)]]\<rparr> =
   (5, [],
      \<lparr>raw_values = Map.empty,
       energy_consumption_history =
         [''cool'' \<mapsto> [(1700000000000000, 50, 40), (1700000000000000 - minutes 10, 45, 40),
                        (1700000000000000 - minutes 20, 60, 40)]]\<rparr>)"
  by (simp add: anomaly_def in_window_def minutes_def delta_energy_consumption_def dd_get_def)

text \<open>
  C2, amended. When the walk reaches an anomalous pair (that pair and all pairs before
  it are inside the window, and \<open>early_break\<close> is unset or the pair is the first one),
  \<^verbatim>\<open>delta_energy_consumption\<close> returns exactly 0, whatever it had accumulated, and logs
  one error. The model has no exception in this function: none of its operations
  raises. The witness is the scenario of the specification: older.today = 50,
  newer.today = 30, newer.yesterday = 10.
\<close>

theorem delta_anomaly_returns_zero:
  assumes "pairs = zip (history_of self mode) (tl (history_of self mode))"
    and "k < length pairs"
    and "anomaly (pairs ! k)"
    and "\<forall>j \<le> k. in_window now dt (j, pairs ! j)"
    and "early_break \<longrightarrow> k = 0"
  shows "fst (delta_energy_consumption now dt mode early_break self) = 0 \<and>
         fst (snd (delta_energy_consumption now dt mode early_break self)) =
           [''Impossible energy consumption measure'']"
  using delta_loop_anomaly[of k pairs now dt 0 early_break 0] assms
  by (simp add: delta_energy_consumption_loop)

theorem delta_anomaly_returns_zero_witness:
  "fst (delta_energy_consumption (\<lambda>_. 1700000000000000) (minutes 30) ''total'' False
      \<lparr>raw_values = Map.empty,
       energy_consumption_history =
         [''total'' \<mapsto> [(1700000000000000, 30, 10), (1700000000000000 - minutes 10, 50, 40)]]\<rparr>) = 0 \<and>
   fst (snd (delta_energy_consumption (\<lambda>_. 1700000000000000) (minutes 30) ''total'' False
      \<lparr>raw_values = Map.empty,
       energy_consumption_history =
         [''total'' \<mapsto> [(1700000000000000, 30, 10), (1700000000000000 - minutes 10, 50, 40)]]\<rparr>)) =
     [''Impossible energy consumption measure'']"
proof (rule delta_anomaly_returns_zero[where k = 0 and pairs = "[((1700000000000000, 30, 10), (1700000000000000 - minutes 10, 50, 40))]"])
  show "[((1700000000000000, 30, 10), (1700000000000000 - minutes 10, 50, 40))] =
    zip (history_of \<lparr>raw_values = Map.empty,
       energy_consumption_history =
         [''total'' \<mapsto> [(1700000000000000, 30, 10), (1700000000000000 - minutes 10, 50, 40)]]\<rparr> ''total'')
     (tl (history_of \<lparr>raw_values = Map.empty,
       energy_consumption_history =
         [''total'' \<mapsto> [(1700000000000000, 30, 10), (1700000000000000 - minutes 10, 50, 40)]]\<rparr> ''total''))"
    by (simp add: history_of_def)
  show "0 < length [((1700000000000000::int, 30::rat, 10::rat), (1700000000000000 - minutes 10, 50::rat, 40::rat))]" by simp
  show "anomaly ([((1700000000000000, 30, 10), (1700000000000000 - minutes 10, 50, 40))] ! 0)"
    by (simp add: anomaly_def)
  show "\<forall>j\<le>0. in_window (\<lambda>_. 1700000000000000) (minutes 30)
     (j, [((1700000000000000, 30, 10), (1700000000000000 - minutes 10, 50, 40))] ! j)"
    by (simp add: in_window_def minutes_def)
  show "False \<longrightarrow> (0::nat) = 0" by simp
qed

text \<open>
  C3. The claim is that a category whose raw fields are absent or not numbers is skipped
  for the cycle, with its history unchanged and no exception leaving the recorder. The
  code does not do that. In the first appliance the field \<^verbatim>\<open>curr_day_cool\<close> is not a
  number: \<^verbatim>\<open>_energy_consumption\<close> catches the \<^verbatim>\<open>ValueError\<close> of \<^verbatim>\<open>int\<close> and returns
  \<^verbatim>\<open>None\<close>, then \<^verbatim>\<open>sum(None)\<close> raises \<^verbatim>\<open>TypeError\<close>, which leaves the recorder after
  total was recorded and before heat is looked at. In the second the field \<^verbatim>\<open>datas\<close> is
  absent, \<^verbatim>\<open>None.split\<close> raises \<^verbatim>\<open>AttributeError\<close>, and it leaves the recorder.
\<close>

theorem recorder_raises_on_bad_field:
  "energy_consumption
     \<lparr>raw_values = [''this_year'' \<mapsto> ''10'', ''datas'' \<mapsto> ''1000/2500'',
                     ''curr_day_cool'' \<mapsto> ''x'', ''prev_1day_cool'' \<mapsto> ''1''],
      energy_consumption_history = Map.empty\<rparr> ''curr_day_cool'' = Inr None \<and>
   register_energy_consumption_history
     \<lparr>new_state_now = (\<lambda>_. 1700000000000000), prune_now = (\<lambda>_ _. 1700000000000000)\<rparr>
     \<lparr>raw_values = [''this_year'' \<mapsto> ''10'', ''datas'' \<mapsto> ''1000/2500'',
                     ''curr_day_cool'' \<mapsto> ''x'', ''prev_1day_cool'' \<mapsto> ''1''],
      energy_consumption_history = Map.empty\<rparr> =
   (Some TypeError,
     \<lparr>raw_values = [''this_year'' \<mapsto> ''10'', ''datas'' \<mapsto> ''1000/2500'',
                     ''curr_day_cool'' \<mapsto> ''x'', ''prev_1day_cool'' \<mapsto> ''1''],
      energy_consumption_history = [''total'' \<mapsto> [(1700000000000000, 5 / 2, 1)]]\<rparr>) \<and>
   energy_consumption
     \<lparr>raw_values = [''this_year'' \<mapsto> ''10''], energy_consumption_history = Map.empty\<rparr> ''datas'' =
     Inl AttributeError \<and>
   register_energy_consumption_history
     \<lparr>new_state_now = (\<lambda>_. 1700000000000000), prune_now = (\<lambda>_ _. 1700000000000000)\<rparr>
     \<lparr>raw_values = [''this_year'' \<mapsto> ''10''], energy_consumption_history = Map.empty\<rparr> =
   (Some AttributeError,
     \<lparr>raw_values = [''this_year'' \<mapsto> ''10''], energy_consumption_history = Map.empty\<rparr>)"
  by (simp add: recorder_eval)

text \<open>
  C4. A run of the loop body that inserts a snapshot stamped \<open>observedAt\<close> and prunes with
  the cutoff \<open>prunedAt - 3h\<close>, where \<open>prunedAt\<close> is what the clock reads while pruning
  (it is \<open>observedAt\<close>, and the cutoff \<open>observedAt - 3h\<close>, when the clock has not advanced
  since the snapshot was stamped), on a history that is newest first with the new
  snapshot in front: every entry at or after the cutoff is kept; at most one entry older
  than the cutoff is kept, and when some entry is older than the cutoff exactly one is,
  the first such entry of the list, which is the newest of them; the history is not
  empty; and when no entry is older than the cutoff the whole list is kept.
\<close>

theorem record_keeps_window_and_anchor:
  assumes run: "register_mode clk mode self = Inr self'"
    and ext: "today_energy_consumption self mode = Inr today"
      "yesterday_energy_consumption self mode = Inr yesterday"
    and inserted: "history_of self mode = [] \<or> snd (hd (history_of self mode)) \<noteq> (today, yesterday)"
    and obs: "observedAt = new_state_now clk mode"
    and clock: "\<forall>i. prune_now clk mode i = prunedAt"
    and cutoff: "cutoff = prunedAt - POWER_CONSUMPTION_MAX_HISTORY"
    and full: "full = (observedAt, today, yesterday) # history_of self mode"
    and ordered: "newest_first full"
    and kept: "kept = history_of self' mode"
  shows "filter (\<lambda>s. cutoff \<le> fst s) kept = filter (\<lambda>s. cutoff \<le> fst s) full \<and>
         length (filter (\<lambda>s. fst s < cutoff) kept) \<le> 1 \<and>
         ((\<exists>s \<in> set full. fst s < cutoff) \<longrightarrow>
            filter (\<lambda>s. fst s < cutoff) kept = [hd (filter (\<lambda>s. fst s < cutoff) full)] \<and>
            (\<forall>s \<in> set full. fst s < cutoff \<longrightarrow> fst s \<le> fst (hd (filter (\<lambda>s. fst s < cutoff) full)))) \<and>
         kept \<noteq> [] \<and>
         ((\<forall>s \<in> set full. cutoff \<le> fst s) \<longrightarrow> kept = full)"
proof -
  from register_mode_Inr[OF ext, of clk] run
  have "history_of self' mode = recorded clk mode today yesterday (history_of self mode)"
    by (auto simp: history_of_def)
  also have "\<dots> = prune (prune_now clk mode) full"
    using inserted by (auto simp: recorded_def full obs)
  also have "\<dots> = take (Suc (length (takeWhile (\<lambda>s. cutoff \<le> fst s) full))) full"
    unfolding cutoff using clock by (intro prune_constant_clock) simp
  finally have k: "kept = take (Suc (length (takeWhile (\<lambda>s. cutoff \<le> fst s) full))) full"
    by (simp add: kept)
  have ne: "full \<noteq> []" by (simp add: full)
  from pruned_window[OF ordered k ne] show ?thesis by blast
qed

theorem record_keeps_window_and_anchor_witness:
  "register_mode
     \<lparr>new_state_now = (\<lambda>_. 1700000000000000), prune_now = (\<lambda>_ _. 1700000000000000)\<rparr> ''total''
     \<lparr>raw_values = [''datas'' \<mapsto> ''1000/2500''],
      energy_consumption_history =
        [''total'' \<mapsto> [(1700000000000000 - hours 1, 2, 1), (1700000000000000 - hours 2, 3 / 2, 1),
                         (1700000000000000 - hours 4, 1, 1), (1700000000000000 - hours 5, 1 / 2, 1)]]\<rparr> =
   Inr \<lparr>raw_values = [''datas'' \<mapsto> ''1000/2500''],
        energy_consumption_history =
          [''total'' \<mapsto> [(1700000000000000, 5 / 2, 1), (1700000000000000 - hours 1, 2, 1),
                           (1700000000000000 - hours 2, 3 / 2, 1), (1700000000000000 - hours 4, 1, 1)]]\<rparr> \<and>
   filter (\<lambda>s. fst s < 1700000000000000 - hours 3)
     ([(1700000000000000, 5 / 2, 1), (1700000000000000 - hours 1, 2, 1),
       (1700000000000000 - hours 2, 3 / 2, 1), (1700000000000000 - hours 4, 1, 1)] :: snapshot list) =
     [(1700000000000000 - hours 4, 1, 1)]"
proof -
  let ?clk = "\<lparr>new_state_now = (\<lambda>_. 1700000000000000), prune_now = (\<lambda>_ _. 1700000000000000)\<rparr>"
  let ?self = "\<lparr>raw_values = [''datas'' \<mapsto> ''1000/2500''],
      energy_consumption_history =
        [''total'' \<mapsto> [(1700000000000000 - hours 1, 2, 1), (1700000000000000 - hours 2, 3 / 2, 1),
                         (1700000000000000 - hours 4, 1, 1), (1700000000000000 - hours 5, 1 / 2, 1)]]\<rparr>"
  let ?kept = "[(1700000000000000, 5 / 2, 1), (1700000000000000 - hours 1, 2, 1),
      (1700000000000000 - hours 2, 3 / 2, 1), (1700000000000000 - hours 4, 1, 1)] :: snapshot list"
  let ?self' = "\<lparr>raw_values = [''datas'' \<mapsto> ''1000/2500''],
        energy_consumption_history = [''total'' \<mapsto> ?kept]\<rparr>"
  let ?full = "(1700000000000000, 5 / 2, 1) # history_of ?self ''total''"
  have run: "register_mode ?clk ''total'' ?self = Inr ?self'"
    by (simp add: recorder_eval)
  have ext: "today_energy_consumption ?self ''total'' = Inr (5 / 2)"
    "yesterday_energy_consumption ?self ''total'' = Inr 1"
    by (simp_all add: recorder_eval)
  have inserted: "history_of ?self ''total'' = [] \<or> snd (hd (history_of ?self ''total'')) \<noteq> (5 / 2, 1)"
    by (simp add: history_of_def)
  have obs: "1700000000000000 = new_state_now ?clk ''total''" by simp
  have clock: "\<forall>i. prune_now ?clk ''total'' i = 1700000000000000" by simp
  have ordered: "newest_first ?full"
    by (simp add: newest_first_def history_of_def hours_def)
  have kept: "?kept = history_of ?self' ''total''" by (simp add: history_of_def)
  have stale: "\<exists>s \<in> set ?full. fst s < 1700000000000000 - POWER_CONSUMPTION_MAX_HISTORY"
    by (simp add: history_of_def hours_def POWER_CONSUMPTION_MAX_HISTORY_def)
  have anchor: "hd (filter (\<lambda>s. fst s < 1700000000000000 - hours 3) ?full) =
                (1700000000000000 - hours 4, 1, 1)"
    by (simp add: history_of_def hours_def)
  from record_keeps_window_and_anchor[OF run ext inserted obs clock refl refl ordered kept] stale
  have "filter (\<lambda>s. fst s < 1700000000000000 - POWER_CONSUMPTION_MAX_HISTORY) ?kept =
        [hd (filter (\<lambda>s. fst s < 1700000000000000 - POWER_CONSUMPTION_MAX_HISTORY) ?full)]"
    by blast
  then have "filter (\<lambda>s. fst s < 1700000000000000 - hours 3) ?kept = [(1700000000000000 - hours 4, 1, 1)]"
    unfolding POWER_CONSUMPTION_MAX_HISTORY_def anchor .
  with run show ?thesis by (rule conjI)
qed

text \<open>
  C5. A refresh cycle extracts the pair (today, yesterday) for a category when the
  support guard passes, the categories that the loop handles before it raise nothing,
  and \<^verbatim>\<open>today_energy_consumption\<close> and \<^verbatim>\<open>yesterday_energy_consumption\<close> return the
  pair. After \<open>N \<ge> 1\<close> refresh cycles that all extract the same pair for a category,
  started with an empty history of that category, and after every non-empty prefix of
  them, the history of the category is the single snapshot that the first cycle
  stamped, with the extracted pair: the first cycle inserts it, every later one finds
  both counters unchanged and discards its candidate. So the length is 1. What the
  categories handled later in a cycle do, and whether the cycle raises there, does not
  matter.
\<close>

theorem identical_refreshes_one_entry:
  assumes "ins \<noteq> []"
    and "mode \<in> {ATTR_TOTAL, ATTR_COOL, ATTR_HEAT}"
    and "history_of self mode = []"
    and "\<forall>(clk, a) \<in> set (recorder_runs ins self).
           support_energy_consumption a = Inr True \<and>
           (\<forall>m \<in> set (takeWhile (\<lambda>m. m \<noteq> mode) [ATTR_TOTAL, ATTR_COOL, ATTR_HEAT]).
              \<exists>t y. today_energy_consumption a m = Inr t \<and> yesterday_energy_consumption a m = Inr y) \<and>
           today_energy_consumption a mode = Inr today \<and>
           yesterday_energy_consumption a mode = Inr yesterday"
  shows "(\<forall>k. 1 \<le> k \<and> k \<le> length ins \<longrightarrow>
            history_of (refreshes (take k ins) self) mode =
              [(new_state_now (fst (hd ins)) mode, today, yesterday)]) \<and>
         length (history_of (refreshes ins self) mode) = 1"
proof -
  from assms(1) obtain clk fetched rest where ins: "ins = (clk, fetched) # rest"
    by (cases ins) auto
  let ?a = "self\<lparr>raw_values := foldl (++) (raw_values self) fetched\<rparr>"
  let ?self1 = "snd (update_status clk fetched self)"
  let ?entry = "(new_state_now clk mode, today, yesterday)"
  from assms(4) have here: "support_energy_consumption ?a = Inr True"
    "\<forall>m \<in> set (takeWhile (\<lambda>m. m \<noteq> mode) [ATTR_TOTAL, ATTR_COOL, ATTR_HEAT]).
       \<exists>t y. today_energy_consumption ?a m = Inr t \<and> yesterday_energy_consumption ?a m = Inr y"
    "today_energy_consumption ?a mode = Inr today" "yesterday_energy_consumption ?a mode = Inr yesterday"
    by (simp_all add: ins del: takeWhile.simps)
  from assms(4) have later: "\<forall>(clk, a) \<in> set (recorder_runs rest ?self1).
           support_energy_consumption a = Inr True \<and>
           (\<forall>m \<in> set (takeWhile (\<lambda>m. m \<noteq> mode) [ATTR_TOTAL, ATTR_COOL, ATTR_HEAT]).
              \<exists>t y. today_energy_consumption a m = Inr t \<and> yesterday_energy_consumption a m = Inr y) \<and>
           today_energy_consumption a mode = Inr today \<and>
           yesterday_energy_consumption a mode = Inr yesterday"
    by (simp add: ins del: takeWhile.simps)
  from update_status_records[OF here(1) assms(2) here(2,3,4), of clk]
  have first: "history_of ?self1 mode = [?entry]"
    by (simp add: assms(3) recorded_def prune_single)
  have after: "history_of (refreshes (take n rest) ?self1) mode = [?entry]" for n
  proof (rule refreshes_keep_entry[OF _ assms(2) first])
    have "set (recorder_runs (take n rest) ?self1) \<subseteq> set (recorder_runs rest ?self1)"
      unfolding recorder_runs_take by (rule set_take_subset)
    with later show "\<forall>(clk, a) \<in> set (recorder_runs (take n rest) ?self1).
           support_energy_consumption a = Inr True \<and>
           (\<forall>m \<in> set (takeWhile (\<lambda>m. m \<noteq> mode) [ATTR_TOTAL, ATTR_COOL, ATTR_HEAT]).
              \<exists>t y. today_energy_consumption a m = Inr t \<and> yesterday_energy_consumption a m = Inr y) \<and>
           today_energy_consumption a mode = Inr today \<and>
           yesterday_energy_consumption a mode = Inr yesterday"
      by blast
  qed
  have prefix: "history_of (refreshes (take k ins) self) mode = [?entry]" if "1 \<le> k" for k
  proof -
    from that obtain n where k: "k = Suc n" by (cases k) auto
    show ?thesis using after[of n] by (simp add: ins k)
  qed
  from prefix[of "length ins"] assms(1) have "history_of (refreshes ins self) mode = [?entry]"
    by (cases ins) simp_all
  then have "length (history_of (refreshes ins self) mode) = 1" by simp
  moreover have "\<forall>k. 1 \<le> k \<and> k \<le> length ins \<longrightarrow>
            history_of (refreshes (take k ins) self) mode =
              [(new_state_now (fst (hd ins)) mode, today, yesterday)]"
    using prefix by (simp add: ins)
  ultimately show ?thesis by (rule conjI[rotated])
qed


theorem identical_refreshes_one_entry_witness:
  "history_of
     (refreshes
        (take 1
          [(\<lparr>new_state_now = (\<lambda>_. 1700000000000000), prune_now = (\<lambda>_ _. 1700000000000000)\<rparr>,
            [[''this_year'' \<mapsto> ''10'', ''datas'' \<mapsto> ''1000/2500'',
              ''curr_day_cool'' \<mapsto> ''0/1/2'', ''prev_1day_cool'' \<mapsto> ''3/4'']]),
           (\<lparr>new_state_now = (\<lambda>_. 1700000060000000), prune_now = (\<lambda>_ _. 1700000060000000)\<rparr>,
            [[''datas'' \<mapsto> ''1000/2600'']])])
        \<lparr>raw_values = Map.empty, energy_consumption_history = Map.empty\<rparr>) ''cool'' =
     [(1700000000000000, 3 / 10, 7 / 10)] \<and>
   history_of
     (refreshes
        (take 2
          [(\<lparr>new_state_now = (\<lambda>_. 1700000000000000), prune_now = (\<lambda>_ _. 1700000000000000)\<rparr>,
            [[''this_year'' \<mapsto> ''10'', ''datas'' \<mapsto> ''1000/2500'',
              ''curr_day_cool'' \<mapsto> ''0/1/2'', ''prev_1day_cool'' \<mapsto> ''3/4'']]),
           (\<lparr>new_state_now = (\<lambda>_. 1700000060000000), prune_now = (\<lambda>_ _. 1700000060000000)\<rparr>,
            [[''datas'' \<mapsto> ''1000/2600'']])])
        \<lparr>raw_values = Map.empty, energy_consumption_history = Map.empty\<rparr>) ''cool'' =
     [(1700000000000000, 3 / 10, 7 / 10)]"
proof -
  let ?ins = "[(\<lparr>new_state_now = (\<lambda>_. 1700000000000000), prune_now = (\<lambda>_ _. 1700000000000000)\<rparr>,
            [[''this_year'' \<mapsto> ''10'', ''datas'' \<mapsto> ''1000/2500'',
              ''curr_day_cool'' \<mapsto> ''0/1/2'', ''prev_1day_cool'' \<mapsto> ''3/4'']]),
           (\<lparr>new_state_now = (\<lambda>_. 1700000060000000), prune_now = (\<lambda>_ _. 1700000060000000)\<rparr>,
            [[''datas'' \<mapsto> ''1000/2600'']])]"
  let ?self = "\<lparr>raw_values = Map.empty, energy_consumption_history = Map.empty\<rparr> :: appliance"
  have 1: "?ins \<noteq> []" by simp
  have 2: "''cool'' \<in> {ATTR_TOTAL, ATTR_COOL, ATTR_HEAT}" by (simp add: ATTR_COOL_def)
  have 3: "history_of ?self ''cool'' = []" by (simp add: history_of_def)
  have 4: "\<forall>(clk, a) \<in> set (recorder_runs ?ins ?self).
           support_energy_consumption a = Inr True \<and>
           (\<forall>m \<in> set (takeWhile (\<lambda>m. m \<noteq> ''cool'') [ATTR_TOTAL, ATTR_COOL, ATTR_HEAT]).
              \<exists>t y. today_energy_consumption a m = Inr t \<and> yesterday_energy_consumption a m = Inr y) \<and>
           today_energy_consumption a ''cool'' = Inr (3 / 10) \<and>
           yesterday_energy_consumption a ''cool'' = Inr (7 / 10)"
    apply (simp add: update_status_def recorder_eval)
    apply (rule conjI)
     apply (rule exI[of _ "5 / 2"], simp)
    apply (rule exI[of _ "13 / 5"], simp)
    done
  from identical_refreshes_one_entry[OF 1 2 3 4]
  have all: "\<forall>k. 1 \<le> k \<and> k \<le> length ?ins \<longrightarrow>
            history_of (refreshes (take k ?ins) ?self) ''cool'' =
              [(new_state_now (fst (hd ?ins)) ''cool'', 3 / 10, 7 / 10)]"
    by (rule conjunct1)
  have ts: "new_state_now (fst (hd ?ins)) ''cool'' = 1700000000000000" by simp
  have k1: "history_of (refreshes (take 1 ?ins) ?self) ''cool'' =
      [(new_state_now (fst (hd ?ins)) ''cool'', 3 / 10, 7 / 10)]"
    by (rule all[rule_format]) simp
  have k2: "history_of (refreshes (take 2 ?ins) ?self) ''cool'' =
      [(new_state_now (fst (hd ?ins)) ''cool'', 3 / 10, 7 / 10)]"
    by (rule all[rule_format]) simp
  from k1[unfolded ts] k2[unfolded ts] show ?thesis by (rule conjI)
qed

text \<open>
  C6. Refresh cycles whose observation times do not decrease from one cycle to the next,
  started on histories that are newest first and not later than the observations,
  leave every history newest first: the timestamps do not increase along the list. A
  single cycle is the case of a sequence of length one, so every record call preserves
  the ordering; a new appliance satisfies the conditions on the start.
\<close>

theorem refreshes_newest_first:
  assumes "\<forall>mode. newest_first (history_of self mode)"
    and "\<forall>(clk, fetched) \<in> set ins. \<forall>mode. \<forall>s \<in> set (history_of self mode).
           fst s \<le> new_state_now clk mode"
    and "sorted_wrt (\<lambda>c c'. \<forall>mode. new_state_now c mode \<le> new_state_now c' mode) (map fst ins)"
  shows "newest_first (history_of (refreshes ins self) mode)"
  using assms
proof (induction ins arbitrary: self)
  case Nil
  then show ?case by simp
next
  case (Cons x rest)
  obtain clk fetched where x: "x = (clk, fetched)" by (cases x)
  let ?self1 = "snd (update_status clk fetched self)"
  from Cons.prems(1,2) have "chronological clk self"
    by (simp add: chronological_def x)
  then have c1: "chronological clk ?self1" by (rule update_status_chronological)
  have "newest_first (history_of (refreshes rest ?self1) mode)"
  proof (rule Cons.IH)
    show "\<forall>mode. newest_first (history_of ?self1 mode)"
      using c1 by (simp add: chronological_def)
    show "\<forall>(clk', fetched') \<in> set rest. \<forall>mode. \<forall>s \<in> set (history_of ?self1 mode).
            fst s \<le> new_state_now clk' mode"
    proof (intro ballI)
      fix x' assume in_rest: "x' \<in> set rest"
      obtain clk' fetched' where x': "x' = (clk', fetched')" by (cases x')
      have "fst s \<le> new_state_now clk' m" if s: "s \<in> set (history_of ?self1 m)" for m s
      proof -
        from c1 s have "fst s \<le> new_state_now clk m" by (simp add: chronological_def)
        moreover from Cons.prems(3) in_rest have "new_state_now clk m \<le> new_state_now clk' m"
          by (force simp: x x')
        ultimately show ?thesis by simp
      qed
      then show "case x' of (clk', fetched') \<Rightarrow>
          \<forall>mode. \<forall>s \<in> set (history_of ?self1 mode). fst s \<le> new_state_now clk' mode"
        by (simp add: x')
    qed
    show "sorted_wrt (\<lambda>c c'. \<forall>mode. new_state_now c mode \<le> new_state_now c' mode) (map fst rest)"
      using Cons.prems(3) by simp
  qed
  then show ?case by (simp add: x)
qed

theorem refreshes_newest_first_witness:
  "newest_first (history_of
     (refreshes
        [(\<lparr>new_state_now = (\<lambda>_. 1700000000000000), prune_now = (\<lambda>_ _. 1700000000000000)\<rparr>,
          [[''this_year'' \<mapsto> ''10'', ''datas'' \<mapsto> ''1000/2500'']]),
         (\<lparr>new_state_now = (\<lambda>_. 1700000060000000), prune_now = (\<lambda>_ _. 1700000060000000)\<rparr>,
          [[''datas'' \<mapsto> ''1000/2600'']])]
        \<lparr>raw_values = Map.empty, energy_consumption_history = Map.empty\<rparr>) ''total'') \<and>
   history_of
     (refreshes
        [(\<lparr>new_state_now = (\<lambda>_. 1700000000000000), prune_now = (\<lambda>_ _. 1700000000000000)\<rparr>,
          [[''this_year'' \<mapsto> ''10'', ''datas'' \<mapsto> ''1000/2500'']]),
         (\<lparr>new_state_now = (\<lambda>_. 1700000060000000), prune_now = (\<lambda>_ _. 1700000060000000)\<rparr>,
          [[''datas'' \<mapsto> ''1000/2600'']])]
        \<lparr>raw_values = Map.empty, energy_consumption_history = Map.empty\<rparr>) ''total'' =
     [(1700000060000000, 13 / 5, 1), (1700000000000000, 5 / 2, 1)]"
proof -
  let ?ins = "[(\<lparr>new_state_now = (\<lambda>_. 1700000000000000), prune_now = (\<lambda>_ _. 1700000000000000)\<rparr>,
          [[''this_year'' \<mapsto> ''10'', ''datas'' \<mapsto> ''1000/2500'']]),
         (\<lparr>new_state_now = (\<lambda>_. 1700000060000000), prune_now = (\<lambda>_ _. 1700000060000000)\<rparr>,
          [[''datas'' \<mapsto> ''1000/2600'']])]"
  let ?self = "\<lparr>raw_values = Map.empty, energy_consumption_history = Map.empty\<rparr> :: appliance"
  have 1: "\<forall>mode. newest_first (history_of ?self mode)"
    by (simp add: history_of_def newest_first_def)
  have 2: "\<forall>(clk, fetched) \<in> set ?ins. \<forall>mode. \<forall>s \<in> set (history_of ?self mode).
           fst s \<le> new_state_now clk mode"
    by (simp add: history_of_def)
  have 3: "sorted_wrt (\<lambda>c c'. \<forall>mode. new_state_now c mode \<le> new_state_now c' mode) (map fst ?ins)"
    by simp
  have 4: "history_of (refreshes ?ins ?self) ''total'' =
           [(1700000060000000, 13 / 5, 1), (1700000000000000, 5 / 2, 1)]"
    by (simp add: update_status_def recorder_eval history_of_def)
  from refreshes_newest_first[OF 1 2 3, of "''total''"] 4 show ?thesis by (rule conjI)
qed

text \<open>
  C7, as stated, fails in its last part: the recorder stores what
  \<^verbatim>\<open>today_energy_consumption\<close> and \<^verbatim>\<open>yesterday_energy_consumption\<close> return, the values
  divided by 1000. With \<^verbatim>\<open>datas\<close> = \<^verbatim>\<open>1000/2500\<close> the raw counters are 1000 and 2500, and
  the recorded snapshot holds 5/2 and 1.
\<close>

theorem history_stores_divided_counterexample:
  "energy_consumption
     \<lparr>raw_values = [''this_year'' \<mapsto> ''10'', ''datas'' \<mapsto> ''1000/2500'',
                     ''curr_day_cool'' \<mapsto> ''0/1/2'', ''prev_1day_cool'' \<mapsto> ''3/4'',
                     ''curr_day_heat'' \<mapsto> ''0'', ''prev_1day_heat'' \<mapsto> ''5''],
      energy_consumption_history = Map.empty\<rparr> ''datas'' = Inr (Some [1000, 2500]) \<and>
   register_energy_consumption_history
     \<lparr>new_state_now = (\<lambda>_. 1700000000000000), prune_now = (\<lambda>_ _. 1700000000000000)\<rparr>
     \<lparr>raw_values = [''this_year'' \<mapsto> ''10'', ''datas'' \<mapsto> ''1000/2500'',
                     ''curr_day_cool'' \<mapsto> ''0/1/2'', ''prev_1day_cool'' \<mapsto> ''3/4'',
                     ''curr_day_heat'' \<mapsto> ''0'', ''prev_1day_heat'' \<mapsto> ''5''],
      energy_consumption_history = Map.empty\<rparr> =
   (None,
     \<lparr>raw_values = [''this_year'' \<mapsto> ''10'', ''datas'' \<mapsto> ''1000/2500'',
                     ''curr_day_cool'' \<mapsto> ''0/1/2'', ''prev_1day_cool'' \<mapsto> ''3/4'',
                     ''curr_day_heat'' \<mapsto> ''0'', ''prev_1day_heat'' \<mapsto> ''5''],
      energy_consumption_history =
        [''total'' \<mapsto> [(1700000000000000, 5 / 2, 1)],
         ''cool'' \<mapsto> [(1700000000000000, 3 / 10, 7 / 10)],
         ''heat'' \<mapsto> [(1700000000000000, 0, 1 / 2)]]\<rparr>)"
  by (simp add: recorder_eval)

text \<open>
  C7, amended. For the total category, today and yesterday are the last and the
  second-to-last element of the slash-delimited field \<^verbatim>\<open>datas\<close>, each divided by 1000,
  and the snapshot at the head of the total history after a run of the recorder on a
  supporting device holds these divided values.
\<close>

theorem total_divided_and_recorded:
  assumes "raw_values self ''datas'' = Some s"
    and "map py_int (split_on CHR ''/'' s) = map Some xs"
  shows "today_energy_consumption self ATTR_TOTAL = Inr (of_int (last xs) / 1000) \<and>
         (2 \<le> length xs \<longrightarrow>
            yesterday_energy_consumption self ATTR_TOTAL = Inr (of_int (xs ! (length xs - 2)) / 1000) \<and>
            (support_energy_consumption self = Inr True \<longrightarrow>
               history_of (snd (register_energy_consumption_history clk self)) ATTR_TOTAL \<noteq> [] \<and>
               snd (hd (history_of (snd (register_energy_consumption_history clk self)) ATTR_TOTAL)) =
                 (of_int (last xs) / 1000, of_int (xs ! (length xs - 2)) / 1000)))"
proof -
  from assms(2) have "length xs = length (split_on CHR ''/'' s)"
    by (metis length_map)
  then have ne: "xs \<noteq> []" using split_on_nonempty[of "CHR ''/''" s] by auto
  from assms have e: "energy_consumption self ''datas'' = Inr (Some xs)"
    by (simp add: energy_consumption_def ints_of_Some)
  from ne have "from_end xs 1 = Inr (last xs)"
    by (cases xs rule: rev_cases) (simp_all add: from_end_def)
  then have t: "today_energy_consumption self ATTR_TOTAL = Inr (of_int (last xs) / 1000)"
    by (simp add: today_energy_consumption_def e last_div_def)
  have y: "yesterday_energy_consumption self ATTR_TOTAL = Inr (of_int (xs ! (length xs - 2)) / 1000)"
    if "2 \<le> length xs"
    using that by (simp add: yesterday_energy_consumption_def e last_div_def from_end_def)
  show ?thesis
    using t y register_total_first[OF _ t y, of clk] recorded_head
    by simp
qed

theorem total_divided_and_recorded_witness:
  "today_energy_consumption
     \<lparr>raw_values = [''this_year'' \<mapsto> ''10'', ''datas'' \<mapsto> ''7/1000/2500''],
      energy_consumption_history = Map.empty\<rparr> ATTR_TOTAL = Inr (5 / 2) \<and>
   yesterday_energy_consumption
     \<lparr>raw_values = [''this_year'' \<mapsto> ''10'', ''datas'' \<mapsto> ''7/1000/2500''],
      energy_consumption_history = Map.empty\<rparr> ATTR_TOTAL = Inr 1 \<and>
   snd (hd (history_of (snd (register_energy_consumption_history
     \<lparr>new_state_now = (\<lambda>_. 1700000000000000), prune_now = (\<lambda>_ _. 1700000000000000)\<rparr>
     \<lparr>raw_values = [''this_year'' \<mapsto> ''10'', ''datas'' \<mapsto> ''7/1000/2500''],
      energy_consumption_history = Map.empty\<rparr>)) ATTR_TOTAL)) = (5 / 2, 1)"
proof -
  let ?self = "\<lparr>raw_values = [''this_year'' \<mapsto> ''10'', ''datas'' \<mapsto> ''7/1000/2500''],
      energy_consumption_history = Map.empty\<rparr>"
  let ?clk = "\<lparr>new_state_now = (\<lambda>_. 1700000000000000), prune_now = (\<lambda>_ _. 1700000000000000)\<rparr>"
  have a: "raw_values ?self ''datas'' = Some ''7/1000/2500''" by simp
  have b: "map py_int (split_on CHR ''/'' ''7/1000/2500'') = map Some [7, 1000, 2500]" by code_simp
  have c: "support_energy_consumption ?self = Inr True" by code_simp
  from total_divided_and_recorded[OF a b, of ?clk] c show ?thesis by simp
qed

text \<open>
  C8, as stated, fails: the guard of the accessors counts the keys of the dict, not the
  snapshots of the queried mode. After one call of \<^verbatim>\<open>delta_energy_consumption\<close> on a
  new appliance the dict has the key \<^verbatim>\<open>total\<close> with an empty list: no snapshot was
  ever recorded, and \<^verbatim>\<open>current_total_power_consumption\<close> returns 0, not \<^verbatim>\<open>None\<close>.
\<close>

theorem power_guard_counterexample:
  "history_of (snd (snd (delta_energy_consumption (\<lambda>_. 0) (minutes 30) ''total'' False
      \<lparr>raw_values = Map.empty, energy_consumption_history = Map.empty\<rparr>))) ''total'' = [] \<and>
   fst (current_total_power_consumption (\<lambda>_. 0)
     (snd (snd (delta_energy_consumption (\<lambda>_. 0) (minutes 30) ''total'' False
        \<lparr>raw_values = Map.empty, energy_consumption_history = Map.empty\<rparr>)))) = Some 0"
  by (simp add: current_total_power_consumption_def delta_energy_consumption_def dd_get_def history_of_def)

text \<open>
  C8, amended. When the history dict has no key at all, each derived power accessor
  returns \<^verbatim>\<open>None\<close>, logs nothing and leaves the appliance as it is. Otherwise
  \<^verbatim>\<open>current_total_power_consumption\<close> is \<open>delta(total, 30 min)\<close> times 2 and the two
  last-hour accessors are \<open>delta(cool, 65 min)\<close> and \<open>delta(heat, 65 min)\<close> with
  \<open>early_break\<close>; each of them is 0 when the list of its mode has fewer than two
  snapshots, in particular when it is empty.
\<close>

theorem power_guard:
  "(dom (energy_consumption_history self) = {} \<longrightarrow>
      current_total_power_consumption now self = (None, [], self) \<and>
      last_hour_cool_power_consumption now self = (None, [], self) \<and>
      last_hour_heat_power_consumption now self = (None, [], self)) \<and>
   (dom (energy_consumption_history self) \<noteq> {} \<longrightarrow>
      fst (current_total_power_consumption now self) =
        Some (fst (delta_energy_consumption now (minutes 30) ''total'' False self) * 2) \<and>
      fst (last_hour_cool_power_consumption now self) =
        Some (fst (delta_energy_consumption now (minutes 65) ATTR_COOL True self)) \<and>
      fst (last_hour_heat_power_consumption now self) =
        Some (fst (delta_energy_consumption now (minutes 65) ATTR_HEAT True self)) \<and>
      (length (history_of self ''total'') \<le> 1 \<longrightarrow>
         fst (current_total_power_consumption now self) = Some 0) \<and>
      (length (history_of self ATTR_COOL) \<le> 1 \<longrightarrow>
         fst (last_hour_cool_power_consumption now self) = Some 0) \<and>
      (length (history_of self ATTR_HEAT) \<le> 1 \<longrightarrow>
         fst (last_hour_heat_power_consumption now self) = Some 0))"
proof (intro conjI impI)
  assume e: "dom (energy_consumption_history self) = {}"
  then show "current_total_power_consumption now self = (None, [], self)"
    by (simp add: current_total_power_consumption_eq)
  from e show "last_hour_cool_power_consumption now self = (None, [], self)"
    by (simp add: last_hour_cool_power_consumption_eq)
  from e show "last_hour_heat_power_consumption now self = (None, [], self)"
    by (simp add: last_hour_heat_power_consumption_eq)
next
  assume n: "dom (energy_consumption_history self) \<noteq> {}"
  then show t: "fst (current_total_power_consumption now self) =
        Some (fst (delta_energy_consumption now (minutes 30) ''total'' False self) * 2)"
    by (simp add: current_total_power_consumption_eq)
  from n show c: "fst (last_hour_cool_power_consumption now self) =
        Some (fst (delta_energy_consumption now (minutes 65) ATTR_COOL True self))"
    by (simp add: last_hour_cool_power_consumption_eq)
  from n show h: "fst (last_hour_heat_power_consumption now self) =
        Some (fst (delta_energy_consumption now (minutes 65) ATTR_HEAT True self))"
    by (simp add: last_hour_heat_power_consumption_eq)
  show "fst (current_total_power_consumption now self) = Some 0"
    if "length (history_of self ''total'') \<le> 1"
    by (simp add: t delta_energy_consumption_short(1)[OF that])
  show "fst (last_hour_cool_power_consumption now self) = Some 0"
    if "length (history_of self ATTR_COOL) \<le> 1"
    by (simp add: c delta_energy_consumption_short(1)[OF that])
  show "fst (last_hour_heat_power_consumption now self) = Some 0"
    if "length (history_of self ATTR_HEAT) \<le> 1"
    by (simp add: h delta_energy_consumption_short(1)[OF that])
qed

theorem power_guard_witness:
  "fst (current_total_power_consumption (\<lambda>_. 1700000000000000)
      \<lparr>raw_values = Map.empty, energy_consumption_history = Map.empty\<rparr>) = None \<and>
   fst (current_total_power_consumption (\<lambda>_. 1700000000000000)
      \<lparr>raw_values = Map.empty,
       energy_consumption_history =
         [''total'' \<mapsto> [(1700000000000000, 50, 40), (1700000000000000 - minutes 10, 45, 40)]]\<rparr>) = Some 10 \<and>
   fst (current_total_power_consumption (\<lambda>_. 1700000000000000)
      \<lparr>raw_values = Map.empty,
       energy_consumption_history = [''cool'' \<mapsto> [(1700000000000000, 3, 2)]]\<rparr>) = Some 0"
proof -
  let ?now = "\<lambda>_::nat. 1700000000000000::int"
  let ?fresh = "\<lparr>raw_values = Map.empty, energy_consumption_history = Map.empty\<rparr> :: appliance"
  let ?self = "\<lparr>raw_values = Map.empty,
       energy_consumption_history =
         [''total'' \<mapsto> [(1700000000000000, 50, 40), (1700000000000000 - minutes 10, 45, 40)]]\<rparr>"
  let ?cool = "\<lparr>raw_values = Map.empty,
       energy_consumption_history = [''cool'' \<mapsto> [(1700000000000000, 3, 2)]]\<rparr>"
  have e: "dom (energy_consumption_history ?fresh) = {}" by simp
  have n: "dom (energy_consumption_history ?self) \<noteq> {}" by simp
  have nc: "dom (energy_consumption_history ?cool) \<noteq> {}" by simp
  have lc: "length (history_of ?cool ''total'') \<le> 1" by (simp add: history_of_def)
  have d: "fst (delta_energy_consumption ?now (minutes 30) ''total'' False ?self) * 2 = 10"
    by (simp add: delta_energy_consumption_def dd_get_def minutes_def)
  from power_guard[of ?fresh ?now] e
  have "current_total_power_consumption ?now ?fresh = (None, [], ?fresh)" by blast
  then have 1: "fst (current_total_power_consumption ?now ?fresh) = None" by simp
  from power_guard[of ?self ?now] n
  have "fst (current_total_power_consumption ?now ?self) =
        Some (fst (delta_energy_consumption ?now (minutes 30) ''total'' False ?self) * 2)" by blast
  then have 2: "fst (current_total_power_consumption ?now ?self) = Some 10" unfolding d .
  from power_guard[of ?cool ?now] nc lc
  have 3: "fst (current_total_power_consumption ?now ?cool) = Some 0" by blast
  from 1 2 3 show ?thesis by (intro conjI)
qed

text \<open>
  C9, as stated, fails in its last part: a call for a mode that is not yet a key of the
  dict inserts the key, and the appliance is observably changed. On a new appliance
  \<^verbatim>\<open>current_total_power_consumption\<close> is \<^verbatim>\<open>None\<close>; after one call of
  \<^verbatim>\<open>delta_energy_consumption\<close> for cool it is 0.
\<close>

theorem delta_changes_state_counterexample:
  "fst (current_total_power_consumption (\<lambda>_. 0)
      \<lparr>raw_values = Map.empty, energy_consumption_history = Map.empty\<rparr>) = None \<and>
   snd (snd (delta_energy_consumption (\<lambda>_. 0) (minutes 65) ''cool'' True
      \<lparr>raw_values = Map.empty, energy_consumption_history = Map.empty\<rparr>)) =
      \<lparr>raw_values = Map.empty, energy_consumption_history = [''cool'' \<mapsto> []]\<rparr> \<and>
   fst (current_total_power_consumption (\<lambda>_. 0)
      \<lparr>raw_values = Map.empty, energy_consumption_history = [''cool'' \<mapsto> []]\<rparr>) = Some 0"
  by (simp add: current_total_power_consumption_def delta_energy_consumption_def dd_get_def)

text \<open>
  C9, amended. With the same clock readings, window, mode and flag, a second call of
  \<^verbatim>\<open>delta_energy_consumption\<close> returns the same energy and the same log as the first
  and leaves the appliance as the first left it. The first call leaves the raw values
  and the list of every mode as they were; it leaves the dict unchanged when the mode is
  already a key, and otherwise adds the mode with an empty list.
\<close>

theorem delta_repeatable:
  "fst (delta_energy_consumption now dt mode early_break
          (snd (snd (delta_energy_consumption now dt mode early_break self)))) =
     fst (delta_energy_consumption now dt mode early_break self) \<and>
   fst (snd (delta_energy_consumption now dt mode early_break
          (snd (snd (delta_energy_consumption now dt mode early_break self))))) =
     fst (snd (delta_energy_consumption now dt mode early_break self)) \<and>
   snd (snd (delta_energy_consumption now dt mode early_break
          (snd (snd (delta_energy_consumption now dt mode early_break self))))) =
     snd (snd (delta_energy_consumption now dt mode early_break self)) \<and>
   raw_values (snd (snd (delta_energy_consumption now dt mode early_break self))) = raw_values self \<and>
   energy_consumption_history (snd (snd (delta_energy_consumption now dt mode early_break self))) =
     (if mode \<in> dom (energy_consumption_history self) then energy_consumption_history self
      else (energy_consumption_history self)(mode \<mapsto> [])) \<and>
   history_of (snd (snd (delta_energy_consumption now dt mode early_break self))) m = history_of self m"
  by (auto simp: delta_energy_consumption_loop dd_get_def history_of_def split: option.splits)

theorem delta_repeatable_witness:
  "fst (delta_energy_consumption (\<lambda>_. 1700000000000000) (minutes 30) ''total'' False
      (snd (snd (delta_energy_consumption (\<lambda>_. 1700000000000000) (minutes 30) ''total'' False
        \<lparr>raw_values = Map.empty,
         energy_consumption_history =
           [''total'' \<mapsto> [(1700000000000000, 50, 40), (1700000000000000 - minutes 10, 45, 40)]]\<rparr>)))) = 5 \<and>
   snd (snd (delta_energy_consumption (\<lambda>_. 1700000000000000) (minutes 30) ''total'' False
        \<lparr>raw_values = Map.empty,
         energy_consumption_history =
           [''total'' \<mapsto> [(1700000000000000, 50, 40), (1700000000000000 - minutes 10, 45, 40)]]\<rparr>)) =
      \<lparr>raw_values = Map.empty,
       energy_consumption_history =
         [''total'' \<mapsto> [(1700000000000000, 50, 40), (1700000000000000 - minutes 10, 45, 40)]]\<rparr>"
proof -
  let ?self = "\<lparr>raw_values = Map.empty,
         energy_consumption_history =
           [''total'' \<mapsto> [(1700000000000000, 50, 40), (1700000000000000 - minutes 10, 45, 40)]]\<rparr>"
  let ?now = "\<lambda>_::nat. 1700000000000000::int"
  have first: "delta_energy_consumption ?now (minutes 30) ''total'' False ?self = (5, [], ?self)"
    by (simp add: delta_energy_consumption_def dd_get_def minutes_def)
  from delta_repeatable[of ?now "minutes 30" "''total''" False ?self]
  have "fst (delta_energy_consumption ?now (minutes 30) ''total'' False
          (snd (snd (delta_energy_consumption ?now (minutes 30) ''total'' False ?self)))) =
        fst (delta_energy_consumption ?now (minutes 30) ''total'' False ?self)"
    by (rule conjunct1)
  also have "\<dots> = 5" by (simp add: first)
  finally show ?thesis by (simp add: first)
qed

text \<open>
  C10, as stated, fails for the derived accessors: on an appliance whose history dict
  has no key, an accessor returns \<^verbatim>\<open>None\<close> at its guard, before it reaches
  \<^verbatim>\<open>delta_energy_consumption\<close>, and inserts nothing, although the key of its mode is
  not in the dict.
\<close>

theorem accessor_guard_first_counterexample:
  "energy_consumption_history
     \<lparr>raw_values = Map.empty, energy_consumption_history = Map.empty\<rparr> ''total'' = None \<and>
   current_total_power_consumption (\<lambda>_. 1700000000000000)
     \<lparr>raw_values = Map.empty, energy_consumption_history = Map.empty\<rparr> =
   (None, [], \<lparr>raw_values = Map.empty, energy_consumption_history = Map.empty\<rparr>) \<and>
   last_hour_cool_power_consumption (\<lambda>_. 1700000000000000)
     \<lparr>raw_values = Map.empty, energy_consumption_history = Map.empty\<rparr> =
   (None, [], \<lparr>raw_values = Map.empty, energy_consumption_history = Map.empty\<rparr>) \<and>
   last_hour_heat_power_consumption (\<lambda>_. 1700000000000000)
     \<lparr>raw_values = Map.empty, energy_consumption_history = Map.empty\<rparr> =
   (None, [], \<lparr>raw_values = Map.empty, energy_consumption_history = Map.empty\<rparr>)"
  by (simp add: current_total_power_consumption_def last_hour_cool_power_consumption_def
      last_hour_heat_power_consumption_def)

text \<open>
  C10, amended. A call of \<^verbatim>\<open>delta_energy_consumption\<close> for a mode that is not a key of
  the history dict inserts the mode with an empty list. The dict then has a key, so each
  derived power accessor called afterwards passes its guard and returns a number
  instead of \<^verbatim>\<open>None\<close>. An accessor inserts the missing key of its own mode in the
  same way when its guard passes, that is when the dict already has some key; when the
  dict has no key it returns \<^verbatim>\<open>None\<close> and leaves the appliance as it is.
\<close>

theorem delta_inserts_missing_mode:
  assumes "energy_consumption_history self mode = None"
  shows "energy_consumption_history (snd (snd (delta_energy_consumption now dt mode early_break self))) =
           (energy_consumption_history self)(mode \<mapsto> []) \<and>
         dom (energy_consumption_history
                (snd (snd (delta_energy_consumption now dt mode early_break self)))) \<noteq> {} \<and>
         fst (current_total_power_consumption now'
                (snd (snd (delta_energy_consumption now dt mode early_break self)))) \<noteq> None \<and>
         fst (last_hour_cool_power_consumption now'
                (snd (snd (delta_energy_consumption now dt mode early_break self)))) \<noteq> None \<and>
         fst (last_hour_heat_power_consumption now'
                (snd (snd (delta_energy_consumption now dt mode early_break self)))) \<noteq> None \<and>
         (dom (energy_consumption_history self) \<noteq> {} \<and> mode = ''total'' \<longrightarrow>
            energy_consumption_history (snd (snd (current_total_power_consumption now self))) =
              (energy_consumption_history self)(mode \<mapsto> [])) \<and>
         (dom (energy_consumption_history self) \<noteq> {} \<and> mode = ATTR_COOL \<longrightarrow>
            energy_consumption_history (snd (snd (last_hour_cool_power_consumption now self))) =
              (energy_consumption_history self)(mode \<mapsto> [])) \<and>
         (dom (energy_consumption_history self) \<noteq> {} \<and> mode = ATTR_HEAT \<longrightarrow>
            energy_consumption_history (snd (snd (last_hour_heat_power_consumption now self))) =
              (energy_consumption_history self)(mode \<mapsto> [])) \<and>
         (dom (energy_consumption_history self) = {} \<longrightarrow>
            current_total_power_consumption now self = (None, [], self) \<and>
            last_hour_cool_power_consumption now self = (None, [], self) \<and>
            last_hour_heat_power_consumption now self = (None, [], self))"
  using assms
  by (auto simp: delta_energy_consumption_state current_total_power_consumption_eq
      last_hour_cool_power_consumption_eq last_hour_heat_power_consumption_eq)

theorem delta_inserts_missing_mode_witness:
  "energy_consumption_history
     (snd (snd (delta_energy_consumption (\<lambda>_. 1700000000000000) (minutes 65) ''heat'' True
        \<lparr>raw_values = Map.empty, energy_consumption_history = Map.empty\<rparr>))) =
     [''heat'' \<mapsto> []] \<and>
   fst (current_total_power_consumption (\<lambda>_. 1700000000000000)
     (snd (snd (delta_energy_consumption (\<lambda>_. 1700000000000000) (minutes 65) ''heat'' True
        \<lparr>raw_values = Map.empty, energy_consumption_history = Map.empty\<rparr>)))) \<noteq> None \<and>
   energy_consumption_history
     (snd (snd (current_total_power_consumption (\<lambda>_. 1700000000000000)
        \<lparr>raw_values = Map.empty, energy_consumption_history = [''heat'' \<mapsto> []]\<rparr>))) =
     [''heat'' \<mapsto> [], ''total'' \<mapsto> []]"
proof -
  let ?self = "\<lparr>raw_values = Map.empty, energy_consumption_history = Map.empty\<rparr> :: appliance"
  let ?self1 = "\<lparr>raw_values = Map.empty, energy_consumption_history = [''heat'' \<mapsto> []]\<rparr> :: appliance"
  have h: "energy_consumption_history ?self ''heat'' = None" by simp
  have h1: "energy_consumption_history ?self1 ''total'' = None" by simp
  from delta_inserts_missing_mode[OF h, where now = "\<lambda>_. 1700000000000000" and dt = "minutes 65"
      and early_break = True and now' = "\<lambda>_. 1700000000000000"]
  have a: "energy_consumption_history
     (snd (snd (delta_energy_consumption (\<lambda>_. 1700000000000000) (minutes 65) ''heat'' True ?self))) =
     [''heat'' \<mapsto> []] \<and>
   fst (current_total_power_consumption (\<lambda>_. 1700000000000000)
     (snd (snd (delta_energy_consumption (\<lambda>_. 1700000000000000) (minutes 65) ''heat'' True ?self)))) \<noteq> None"
    by simp
  from delta_inserts_missing_mode[OF h1, where now = "\<lambda>_. 1700000000000000"]
  have b: "energy_consumption_history
     (snd (snd (current_total_power_consumption (\<lambda>_. 1700000000000000) ?self1))) =
     [''heat'' \<mapsto> [], ''total'' \<mapsto> []]"
    by simp
  from a b show ?thesis by simp
qed

end
